theory Spec2Isabelle
  imports Complex_Main "HOL-Library.AList"
begin

section \<open>The JavaScript values the tracker computes with\<close>

text \<open>
  The tracker (the \<^verbatim>\<open>Home\<close> component with anchor-based recovery and the 24 hour cap)
  works on JavaScript numbers. Every number it handles is an integer (milliseconds,
  tenths of a second) or the \<^verbatim>\<open>NaN\<close> that \<^verbatim>\<open>parseInt\<close> returns on a text without digits.
  Integers are modelled exactly by \<open>int\<close>: a double holds every integer up to \<open>2^53\<close>
  exactly, far above any time stamp; larger magnitudes, where JavaScript rounds, are
  outside the model. The two averages are quotients; they are modelled by the exact
  rational, without the rounding of the double.
\<close>

datatype number = Num int | NaN

text \<open>\<^verbatim>\<open>a + b\<close>, \<^verbatim>\<open>a > b\<close> on numbers: \<^verbatim>\<open>NaN\<close> is contagious and every comparison with it is false.\<close>

fun plus_number :: "number \<Rightarrow> number \<Rightarrow> number" where
  "plus_number (Num a) (Num b) = Num (a + b)"
| "plus_number _ _ = NaN"

fun gt_number :: "number \<Rightarrow> number \<Rightarrow> bool" where
  "gt_number (Num a) (Num b) = (a > b)"
| "gt_number _ _ = False"

subsection \<open>Strings: \<^verbatim>\<open>parseInt(s, 10)\<close> and \<^verbatim>\<open>Number.prototype.toString\<close>\<close>

text \<open>
  A \<open>char\<close> stands for a code unit below 256. White space as \<^verbatim>\<open>parseInt\<close> strips it:
  TAB, LF, VT, FF, CR, SP and NBSP.
\<close>

definition StrWhiteSpaceChar :: "char \<Rightarrow> bool" where
  "StrWhiteSpaceChar c =
     (c \<in> set [CHR 0x09, CHR 0x0A, CHR 0x0B, CHR 0x0C, CHR 0x0D, CHR 0x20, CHR 0xA0])"

definition digit_table :: "(char \<times> nat) list" where
  "digit_table =
     [(CHR ''0'', 0), (CHR ''1'', 1), (CHR ''2'', 2), (CHR ''3'', 3), (CHR ''4'', 4),
      (CHR ''5'', 5), (CHR ''6'', 6), (CHR ''7'', 7), (CHR ''8'', 8), (CHR ''9'', 9)]"

definition is_digit :: "char \<Rightarrow> bool" where
  "is_digit c = (map_of digit_table c \<noteq> None)"

definition digit_value :: "char \<Rightarrow> nat" where
  "digit_value c = (case map_of digit_table c of Some d \<Rightarrow> d | None \<Rightarrow> 0)"

definition digits_value :: "string \<Rightarrow> nat" where
  "digits_value ds = foldl (\<lambda>acc c. 10 * acc + digit_value c) 0 ds"

text \<open>
  \<^verbatim>\<open>parseInt(s, 10)\<close>: leading white space is dropped, one sign is read, then the longest
  run of decimal digits; whatever follows is ignored. No digit at all gives \<^verbatim>\<open>NaN\<close>.
\<close>

definition parseInt10 :: "string \<Rightarrow> number" where
  "parseInt10 s =
     (let s1 = dropWhile StrWhiteSpaceChar s;
          sgn = (case s1 of c # _ \<Rightarrow> if c = CHR ''-'' then - 1 else 1 | [] \<Rightarrow> (1::int));
          s2 = (case s1 of c # r \<Rightarrow> if c = CHR ''-'' \<or> c = CHR ''+'' then r else s1 | [] \<Rightarrow> s1);
          ds = takeWhile is_digit s2
      in if ds = [] then NaN else Num (sgn * int (digits_value ds)))"

definition digit_char :: "nat \<Rightarrow> char" where
  "digit_char d = ''0123456789'' ! d"

fun nat_to_string :: "nat \<Rightarrow> string" where
  "nat_to_string n =
     (if n < 10 then [digit_char n] else nat_to_string (n div 10) @ [digit_char (n mod 10)])"

definition int_to_string :: "int \<Rightarrow> string" where
  "int_to_string i =
     (if i < 0 then CHR ''-'' # nat_to_string (nat (- i)) else nat_to_string (nat i))"

fun toString :: "number \<Rightarrow> string" where
  "toString (Num i) = int_to_string i"
| "toString NaN = ''NaN''"

definition padStart :: "nat \<Rightarrow> char \<Rightarrow> string \<Rightarrow> string" where
  "padStart n c s = replicate (n - length s) c @ s"

subsection \<open>Dates\<close>

text \<open>
  A \<^verbatim>\<open>Date\<close> is its time value, the milliseconds since the epoch in UTC. The calendar
  follows the ECMAScript definitions (\<^verbatim>\<open>Day\<close>, \<^verbatim>\<open>WeekDay\<close>, \<^verbatim>\<open>DaysInYear\<close>,
  \<^verbatim>\<open>YearFromTime\<close>, \<^verbatim>\<open>MonthFromTime\<close>, \<^verbatim>\<open>DateFromTime\<close>); the year is found by walking
  from 1970 one year at a time.
\<close>

definition msPerDay :: int where
  "msPerDay = 86400000"

definition Day :: "int \<Rightarrow> int" where
  "Day t = t div msPerDay"

text \<open>0 is Sunday; the first of January 1970 was a Thursday.\<close>

definition WeekDay :: "int \<Rightarrow> int" where
  "WeekDay t = (Day t + 4) mod 7"

definition DaysInYear :: "int \<Rightarrow> int" where
  "DaysInYear y =
     (if y mod 4 \<noteq> 0 then 365 else if y mod 100 \<noteq> 0 then 366
      else if y mod 400 \<noteq> 0 then 365 else 366)"

text \<open>\<open>year_and_day y d\<close>: the year and the day within it of the day \<open>d\<close> days after 1 January \<open>y\<close>.\<close>

function year_and_day :: "int \<Rightarrow> int \<Rightarrow> int \<times> int" where
  "year_and_day y d =
     (if d < 0 then year_and_day (y - 1) (d + DaysInYear (y - 1))
      else if DaysInYear y \<le> d then year_and_day (y + 1) (d - DaysInYear y)
      else (y, d))"
  by pat_completeness auto
termination
  by (relation "measure (\<lambda>(y, d). nat (if d < 0 then 366 - d else d))")
     (auto simp: DaysInYear_def)

definition YearFromTime :: "int \<Rightarrow> int" where
  "YearFromTime t = fst (year_and_day 1970 (Day t))"

definition DayWithinYear :: "int \<Rightarrow> int" where
  "DayWithinYear t = snd (year_and_day 1970 (Day t))"

definition month_lengths :: "int \<Rightarrow> int list" where
  "month_lengths y =
     [31, if DaysInYear y = 366 then 29 else 28, 31, 30, 31, 30, 31, 31, 30, 31, 30, 31]"

text \<open>The month (0 is January) and the day of the month (from 1) of a day within the year.\<close>

fun month_and_date :: "int list \<Rightarrow> int \<Rightarrow> int \<times> int" where
  "month_and_date [] d = (0, d + 1)"
| "month_and_date (l # ls) d =
     (if d < l then (0, d + 1)
      else (fst (month_and_date ls (d - l)) + 1, snd (month_and_date ls (d - l))))"

definition MonthFromTime :: "int \<Rightarrow> int" where
  "MonthFromTime t = fst (month_and_date (month_lengths (YearFromTime t)) (DayWithinYear t))"

definition DateFromTime :: "int \<Rightarrow> int" where
  "DateFromTime t = snd (month_and_date (month_lengths (YearFromTime t)) (DayWithinYear t))"

text \<open>
  The date part of \<^verbatim>\<open>toISOString()\<close>, which is always in UTC: four digits for the years
  0 to 9999, a sign and six digits for the others.
\<close>

definition iso_year :: "int \<Rightarrow> string" where
  "iso_year y =
     (if 0 \<le> y \<and> y \<le> 9999 then padStart 4 CHR ''0'' (nat_to_string (nat y))
      else (if y < 0 then CHR ''-'' else CHR ''+'') # padStart 6 CHR ''0'' (nat_to_string (nat \<bar>y\<bar>)))"

definition toISOString_date :: "int \<Rightarrow> string" where
  "toISOString_date t =
     iso_year (YearFromTime t) @ ''-''
       @ padStart 2 CHR ''0'' (nat_to_string (nat (MonthFromTime t + 1))) @ ''-''
       @ padStart 2 CHR ''0'' (nat_to_string (nat (DateFromTime t)))"

text \<open>
  The getters and setters of local time. The observer's zone is a fixed offset \<open>tza\<close> from
  UTC in milliseconds (\<^verbatim>\<open>LocalTZA\<close>); daylight saving changes are outside the model.
  \<^verbatim>\<open>setDate(n)\<close> replaces the day of the month of the local date and keeps the local time
  of day, so it moves the time value by \<open>n - getDate()\<close> whole days.
\<close>

definition LocalTime :: "int \<Rightarrow> int \<Rightarrow> int" where
  "LocalTime tza t = t + tza"

definition getDay :: "int \<Rightarrow> int \<Rightarrow> int" where
  "getDay tza t = WeekDay (LocalTime tza t)"

definition getDate :: "int \<Rightarrow> int \<Rightarrow> int" where
  "getDate tza t = DateFromTime (LocalTime tza t)"

definition setDate :: "int \<Rightarrow> int \<Rightarrow> int \<Rightarrow> int" where
  "setDate tza t n = t + (n - getDate tza t) * msPerDay"

section \<open>Persistence: \<^verbatim>\<open>localStorage\<close>\<close>

text \<open>
  Daily totals: a JavaScript object from date strings to tenths of a second, kept as an
  association list in the order of its keys. \<^verbatim>\<open>dailyTotals[date] || 0\<close> is \<open>value_or_zero\<close>;
  the object spread \<^verbatim>\<open>{...prevTotals, [today]: v}\<close> is \<open>AList.update\<close>: an existing key keeps
  its place and gets the new value, a new key is appended.
\<close>

type_synonym DailyTotals = "(string \<times> int) list"

definition Object_keys :: "DailyTotals \<Rightarrow> string list" where
  "Object_keys totals = map fst totals"

definition value_or_zero :: "DailyTotals \<Rightarrow> string \<Rightarrow> int" where
  "value_or_zero totals date = (case map_of totals date of Some v \<Rightarrow> v | None \<Rightarrow> 0)"

text \<open>
  The three entries of the store (\<^verbatim>\<open>game-time-daily\<close>, \<^verbatim>\<open>game-time-overall\<close>,
  \<^verbatim>\<open>game-time-session-start\<close>); \<open>None\<close> is a key that is not there. The two numeric
  entries hold their text. The text of the daily entry is kept by what \<^verbatim>\<open>JSON.parse\<close>
  makes of it: \<open>Json totals\<close> is a text that parses to the object \<open>totals\<close> (what
  \<^verbatim>\<open>JSON.stringify(totals)\<close> writes), \<open>NotJson s\<close> is a text \<open>s\<close> that is not JSON, on which
  \<^verbatim>\<open>JSON.parse\<close> throws a \<^verbatim>\<open>SyntaxError\<close> (the empty text among them). Texts that parse to
  something else than an object of integers are outside the declared type \<^verbatim>\<open>DailyTotals\<close>
  and outside the model.
\<close>

datatype json_text = Json DailyTotals | NotJson string

datatype error = SyntaxError

record localStorage =
  game_time_daily :: "json_text option"
  game_time_overall :: "string option"
  game_time_session_start :: "string option"

definition JSON_parse :: "json_text \<Rightarrow> error + DailyTotals" where
  "JSON_parse stored = (case stored of Json totals \<Rightarrow> Inr totals | NotJson s \<Rightarrow> Inl SyntaxError)"

text \<open>\<^verbatim>\<open>stored ? ... : ...\<close> on a text: only the empty text is falsy.\<close>

definition truthy_text :: "json_text \<Rightarrow> bool" where
  "truthy_text stored = (case stored of Json totals \<Rightarrow> True | NotJson s \<Rightarrow> s \<noteq> [])"

text \<open>
  The accessors. The guard \<^verbatim>\<open>typeof window === "undefined"\<close> of each is false in the
  browser, where all of this runs.
\<close>

definition getDailyTotals :: "localStorage \<Rightarrow> error + DailyTotals" where
  "getDailyTotals ls =
     (case game_time_daily ls of
        None \<Rightarrow> Inr []
      | Some stored \<Rightarrow> if truthy_text stored then JSON_parse stored else Inr [])"

definition saveDailyTotals :: "DailyTotals \<Rightarrow> localStorage \<Rightarrow> localStorage" where
  "saveDailyTotals totals ls = ls\<lparr>game_time_daily := Some (Json totals)\<rparr>"

definition getOverallTotal :: "localStorage \<Rightarrow> number" where
  "getOverallTotal ls =
     (case game_time_overall ls of
        None \<Rightarrow> Num 0
      | Some stored \<Rightarrow> if stored \<noteq> [] then parseInt10 stored else Num 0)"

definition saveOverallTotal :: "number \<Rightarrow> localStorage \<Rightarrow> localStorage" where
  "saveOverallTotal total' ls = ls\<lparr>game_time_overall := Some (toString total')\<rparr>"

definition getSessionStart :: "localStorage \<Rightarrow> number option" where
  "getSessionStart ls =
     (case game_time_session_start ls of
        None \<Rightarrow> None
      | Some stored \<Rightarrow> if stored \<noteq> [] then Some (parseInt10 stored) else None)"

definition saveSessionStart :: "int \<Rightarrow> localStorage \<Rightarrow> localStorage" where
  "saveSessionStart timestamp ls = ls\<lparr>game_time_session_start := Some (int_to_string timestamp)\<rparr>"

definition clearSessionStart :: "localStorage \<Rightarrow> localStorage" where
  "clearSessionStart ls = ls\<lparr>game_time_session_start := None\<rparr>"

section \<open>Elapsed time, date keys and statistics\<close>

definition MAX_SESSION_HOURS :: int where
  "MAX_SESSION_HOURS = 24"

definition MAX_SESSION_TENTHS :: int where
  "MAX_SESSION_TENTHS = MAX_SESSION_HOURS * 60 * 60 * 10"

text \<open>\<open>now\<close> is what \<^verbatim>\<open>Date.now()\<close> returns; \<^verbatim>\<open>Math.floor\<close> of the quotient is \<open>div\<close> on \<open>int\<close>.\<close>

definition calculateElapsedTenths :: "int \<Rightarrow> int \<Rightarrow> int" where
  "calculateElapsedTenths now startTimestamp = (let elapsedMs = now - startTimestamp in elapsedMs div 100)"

definition getDateString :: "int \<Rightarrow> string" where
  "getDateString date = toISOString_date date"

definition getStartOfWeek :: "int \<Rightarrow> int \<Rightarrow> int" where
  "getStartOfWeek tza date =
     (let d = date;
          day = getDay tza d;
          diff = getDate tza d - day + (if day = 0 then - 6 else 1)
      in setDate tza d diff)"

definition getDatesInWeek :: "int \<Rightarrow> int \<Rightarrow> string list" where
  "getDatesInWeek tza date =
     (let start = getStartOfWeek tza date
      in map (\<lambda>i. getDateString (setDate tza start (getDate tza start + i))) [0, 1, 2, 3, 4, 5, 6])"

definition calculateTodayTotal :: "int \<Rightarrow> DailyTotals \<Rightarrow> int" where
  "calculateTodayTotal now totals = value_or_zero totals (getDateString now)"

definition calculateWeekTotal :: "int \<Rightarrow> int \<Rightarrow> DailyTotals \<Rightarrow> int" where
  "calculateWeekTotal tza now totals =
     (let weekDates = getDatesInWeek tza now
      in foldl (\<lambda>sum date. sum + value_or_zero totals date) 0 weekDates)"

definition calculateYesterdayTotal :: "int \<Rightarrow> int \<Rightarrow> DailyTotals \<Rightarrow> int" where
  "calculateYesterdayTotal tza now totals =
     (let yesterday = setDate tza now (getDate tza now - 1)
      in value_or_zero totals (getDateString yesterday))"

text \<open>
  \<^verbatim>\<open>a / b\<close> on integers: the exact quotient, and \<open>None\<close> for a zero divisor, where
  JavaScript yields \<^verbatim>\<open>NaN\<close> or an infinity instead of a finite number.
\<close>

definition js_divide :: "int \<Rightarrow> int \<Rightarrow> rat option" where
  "js_divide a b = (if b = 0 then None else Some (of_int a / of_int b))"

definition calculateWeekAverage :: "int \<Rightarrow> int \<Rightarrow> DailyTotals \<Rightarrow> rat option" where
  "calculateWeekAverage tza now totals =
     (let weekDates = getDatesInWeek tza now;
          weekTotal = foldl (\<lambda>sum date. sum + value_or_zero totals date) 0 weekDates
      in js_divide weekTotal 7)"

definition calculateOverallAverage :: "DailyTotals \<Rightarrow> rat option" where
  "calculateOverallAverage totals =
     (let datesWithData = Object_keys totals
      in if length datesWithData = 0 then Some 0
         else (let total = foldl (\<lambda>sum date. sum + value_or_zero totals date) 0 datesWithData
               in js_divide total (int (length datesWithData))))"

section \<open>The component \<^verbatim>\<open>Home\<close>\<close>

text \<open>
  The state of the component (the four \<^verbatim>\<open>useState\<close> cells and the ref) together with the
  store. \<open>sessionStartRef\<close> is a number or \<^verbatim>\<open>null\<close>; it only ever receives \<^verbatim>\<open>Date.now()\<close> or
  a truthy result of \<^verbatim>\<open>parseInt\<close>, so it holds an integer. A test \<^verbatim>\<open>if (x)\<close> on a number or
  \<^verbatim>\<open>null\<close> fails for \<^verbatim>\<open>null\<close>, for \<^verbatim>\<open>NaN\<close> and for 0.
\<close>

record app =
  sessionTime :: int
  isTracking :: bool
  dailyTotals :: DailyTotals
  overallTotal :: number
  sessionStartRef :: "int option"
  storage :: localStorage

definition Home :: "localStorage \<Rightarrow> app" where
  "Home ls = \<lparr>sessionTime = 0, isTracking = False, dailyTotals = [], overallTotal = Num 0,
              sessionStartRef = None, storage = ls\<rparr>"

text \<open>
  The effect that runs once after mount (\<^verbatim>\<open>Load data from localStorage after mount\<close>). The
  three reads come first and are not guarded: an exception of \<^verbatim>\<open>JSON.parse\<close> leaves the
  effect before anything is loaded. \<open>now\<close> is the clock when the animation frame runs.
\<close>

definition loadOnMount :: "int \<Rightarrow> app \<Rightarrow> error + app" where
  "loadOnMount now a =
     (case getDailyTotals (storage a) of
        Inl e \<Rightarrow> Inl e
      | Inr loadedDailyTotals \<Rightarrow>
          (let loadedOverallTotal = getOverallTotal (storage a);
               savedSessionStart = getSessionStart (storage a);
               a1 = (if length (Object_keys loadedDailyTotals) > 0 \<or> gt_number loadedOverallTotal (Num 0)
                     then a\<lparr>dailyTotals := loadedDailyTotals, overallTotal := loadedOverallTotal\<rparr>
                     else a)
           in Inr (case savedSessionStart of
                     None \<Rightarrow> a1
                   | Some NaN \<Rightarrow> a1
                   | Some (Num saved) \<Rightarrow>
                       if saved \<noteq> 0 then
                         (let elapsed = calculateElapsedTenths now saved
                          in if elapsed > MAX_SESSION_TENTHS
                             then a1\<lparr>storage := clearSessionStart (storage a1)\<rparr>
                             else a1\<lparr>sessionStartRef := Some saved, sessionTime := elapsed,
                                     isTracking := True\<rparr>)
                       else a1)))"

text \<open>
  The timer effect installs the interval only when \<^verbatim>\<open>isTracking\<close> holds and the ref is
  truthy (\<open>timerInstalled\<close>); \<open>timerTick\<close> is the callback of the interval.
\<close>

definition timerInstalled :: "app \<Rightarrow> bool" where
  "timerInstalled a =
     (isTracking a \<and> (case sessionStartRef a of None \<Rightarrow> False | Some s \<Rightarrow> s \<noteq> 0))"

definition timerTick :: "int \<Rightarrow> app \<Rightarrow> app" where
  "timerTick now a =
     (case sessionStartRef a of
        None \<Rightarrow> a
      | Some s \<Rightarrow>
          if s \<noteq> 0 then
            (let elapsed = calculateElapsedTenths now s
             in if elapsed > MAX_SESSION_TENTHS
                then a\<lparr>storage := clearSessionStart (storage a), sessionStartRef := None,
                       isTracking := False, sessionTime := 0\<rparr>
                else a\<lparr>sessionTime := elapsed\<rparr>)
          else a)"

text \<open>
  \<^verbatim>\<open>handleTimer\<close>: the button that stops a running session and starts a new one. One
  clock value \<open>now\<close> stands for the reads of the clock during one call. The two state
  updaters run on the current state; each saves what it returns.
\<close>

definition handleTimer :: "int \<Rightarrow> app \<Rightarrow> app" where
  "handleTimer now a =
     (if isTracking a then
        (let a1 =
           (case sessionStartRef a of
              None \<Rightarrow> a
            | Some s \<Rightarrow>
                if s \<noteq> 0 then
                  (let timeToSave = calculateElapsedTenths now s
                   in if timeToSave > 0 \<and> timeToSave \<le> MAX_SESSION_TENTHS then
                        (let today = getDateString now;
                             prevTotals = dailyTotals a;
                             newDailyTotals =
                               AList.update today (value_or_zero prevTotals today + timeToSave) prevTotals;
                             prevTotal = overallTotal a;
                             newOverallTotal = plus_number prevTotal (Num timeToSave)
                         in a\<lparr>dailyTotals := newDailyTotals, overallTotal := newOverallTotal,
                                storage := saveOverallTotal newOverallTotal
                                             (saveDailyTotals newDailyTotals (storage a))\<rparr>)
                      else a)
                else a)
         in a1\<lparr>storage := clearSessionStart (storage a1), sessionStartRef := None,
                isTracking := False, sessionTime := 0\<rparr>)
      else a\<lparr>sessionStartRef := Some now, storage := saveSessionStart now (storage a),
              isTracking := True\<rparr>)"

definition handleDiscardSession :: "app \<Rightarrow> app" where
  "handleDiscardSession a =
     a\<lparr>storage := clearSessionStart (storage a), sessionStartRef := None,
       isTracking := False, sessionTime := 0\<rparr>"

text \<open>
  What can happen to the component: the mount, a click on the timer button, a click on
  the discard button, a tick of the interval (which exists only when installed).
\<close>

datatype event = Mount int | Timer int | Discard | Tick int

fun step :: "event \<Rightarrow> app \<Rightarrow> error + app" where
  "step (Mount now) a = loadOnMount now a"
| "step (Timer now) a = Inr (handleTimer now a)"
| "step Discard a = Inr (handleDiscardSession a)"
| "step (Tick now) a = Inr (if timerInstalled a then timerTick now a else a)"

text \<open>A run of the component: the events one after the other, until one fails.\<close>

fun run :: "event list \<Rightarrow> app \<Rightarrow> error + app" where
  "run [] a = Inr a"
| "run (ev # evs) a = (case step ev a of Inl e \<Rightarrow> Inl e | Inr a' \<Rightarrow> run evs a')"

section \<open>The notions of the specification\<close>

text \<open>A store with no entry, as on the first visit.\<close>

definition empty_store :: localStorage where
  "empty_store = \<lparr>game_time_daily = None, game_time_overall = None, game_time_session_start = None\<rparr>"

text \<open>
  The ledger invariant: the overall total is the sum of the daily totals. \<open>totals_invariant\<close>
  asks it of the state of the component and of what the store would load.
\<close>

definition ledger_consistent :: "DailyTotals \<Rightarrow> number \<Rightarrow> bool" where
  "ledger_consistent totals overall = (overall = Num (sum_list (map snd totals)))"

definition totals_invariant :: "app \<Rightarrow> bool" where
  "totals_invariant a =
     (ledger_consistent (dailyTotals a) (overallTotal a) \<and>
      (case getDailyTotals (storage a) of
         Inl e \<Rightarrow> False
       | Inr stored \<Rightarrow> ledger_consistent stored (getOverallTotal (storage a))))"

text \<open>The store mirrors the component: it would load the totals that the component holds.\<close>

definition persisted :: "app \<Rightarrow> bool" where
  "persisted a =
     (getDailyTotals (storage a) = Inr (dailyTotals a) \<and>
      getOverallTotal (storage a) = overallTotal a)"

text \<open>
  A transition from \<open>a\<close> to \<open>a'\<close> that ends idle with the anchor cleared, in the component
  and in the store, and commits nothing: the totals are the same, in the component
  and in the store.
\<close>

definition discarded :: "app \<Rightarrow> app \<Rightarrow> bool" where
  "discarded a a' =
     (\<not> isTracking a' \<and> sessionStartRef a' = None \<and>
      game_time_session_start (storage a') = None \<and>
      dailyTotals a' = dailyTotals a \<and> overallTotal a' = overallTotal a \<and>
      game_time_daily (storage a') = game_time_daily (storage a) \<and>
      game_time_overall (storage a') = game_time_overall (storage a))"

text \<open>
  The calendar date of the instant \<open>t\<close> in the observer's local calendar, written as the
  keys are (\<^verbatim>\<open>YYYY-MM-DD\<close>).
\<close>

definition local_date_key :: "int \<Rightarrow> int \<Rightarrow> string" where
  "local_date_key tza t = toISOString_date (LocalTime tza t)"

text \<open>
  The seven calendar dates, Monday to Sunday, of the week that contains day number \<open>n\<close>
  (days since the epoch), and the week average as the specification words it: the sum
  of the entries of these dates, an absent date counting 0, divided by 7.
\<close>

definition monday_week :: "int \<Rightarrow> string list" where
  "monday_week n =
     (let monday = n - (n + 3) mod 7
      in map (\<lambda>i. toISOString_date ((monday + i) * msPerDay)) [0, 1, 2, 3, 4, 5, 6])"

definition week_average_spec :: "string list \<Rightarrow> DailyTotals \<Rightarrow> rat" where
  "week_average_spec dates totals = of_int (sum_list (map (value_or_zero totals) dates)) / 7"

section \<open>Properties\<close>

declare year_and_day.simps [simp del]

declare nat_to_string.simps [simp del]

subsection \<open>Basic facts\<close>

lemma MAX_SESSION_TENTHS_value: "MAX_SESSION_TENTHS = 864000"
  by (simp add: MAX_SESSION_TENTHS_def MAX_SESSION_HOURS_def)

lemma value_or_zero_update:
  "value_or_zero (AList.update k v totals) k' = (if k' = k then v else value_or_zero totals k')"
  by (simp add: value_or_zero_def update_conv')

lemma sum_list_update:
  "sum_list (map snd (AList.update k (value_or_zero totals k + t) totals)) =
     sum_list (map snd totals) + t"
  by (induction totals) (auto simp: value_or_zero_def)

subsection \<open>Numbers written to the store read back\<close>

lemmas parseInt10_eval = parseInt10_def StrWhiteSpaceChar_def is_digit_def digit_table_def
  digits_value_def digit_value_def

lemma digit_char_value:
  assumes "d < 10"
  shows "map_of digit_table (digit_char d) = Some d"
proof -
  from assms have "d \<in> {0, 1, 2, 3, 4, 5, 6, 7, 8, 9}" by auto
  then show ?thesis by (auto simp: digit_char_def digit_table_def)
qed

lemma is_digit_digit_char: "d < 10 \<Longrightarrow> is_digit (digit_char d)"
  by (simp add: is_digit_def digit_char_value)

lemma digit_value_digit_char: "d < 10 \<Longrightarrow> digit_value (digit_char d) = d"
  by (simp add: digit_value_def digit_char_value)

lemma is_digit_not_sign_or_space:
  assumes "is_digit c"
  shows "\<not> StrWhiteSpaceChar c \<and> c \<noteq> CHR ''-'' \<and> c \<noteq> CHR ''+''"
  using assms by (auto simp: is_digit_def digit_table_def StrWhiteSpaceChar_def split: if_splits)

lemma minus_not_space: "\<not> StrWhiteSpaceChar CHR ''-''"
  by (simp add: StrWhiteSpaceChar_def)

lemma nat_to_string_digits: "nat_to_string n \<noteq> [] \<and> (\<forall>c \<in> set (nat_to_string n). is_digit c)"
proof (induction n rule: nat_to_string.induct)
  case (1 n)
  show ?case
  proof (cases "n < 10")
    case True
    then show ?thesis by (simp add: nat_to_string.simps [of n] is_digit_digit_char)
  next
    case False
    with 1 show ?thesis by (simp add: nat_to_string.simps [of n] is_digit_digit_char)
  qed
qed

lemma digits_value_snoc: "digits_value (ds @ [c]) = 10 * digits_value ds + digit_value c"
  by (simp add: digits_value_def)

lemma digits_value_nat_to_string: "digits_value (nat_to_string n) = n"
proof (induction n rule: nat_to_string.induct)
  case (1 n)
  show ?case
  proof (cases "n < 10")
    case True
    then show ?thesis
      by (simp add: nat_to_string.simps [of n] digits_value_def digit_value_digit_char)
  next
    case False
    with 1 show ?thesis
      by (simp add: nat_to_string.simps [of n] digits_value_snoc digit_value_digit_char)
  qed
qed

lemma parseInt10_digits:
  assumes "ds \<noteq> []" and "\<forall>c \<in> set ds. is_digit c"
  shows "parseInt10 ds = Num (int (digits_value ds))"
    and "parseInt10 (CHR ''-'' # ds) = Num (- int (digits_value ds))"
proof -
  from assms obtain c r where ds: "ds = c # r" by (cases ds) auto
  with assms have c: "is_digit c" by simp
  have all: "takeWhile is_digit ds = ds" using assms by (simp add: takeWhile_eq_all_conv)
  show "parseInt10 ds = Num (int (digits_value ds))"
    using is_digit_not_sign_or_space [OF c] assms(1) all [unfolded ds]
    by (simp add: parseInt10_def ds Let_def)
  show "parseInt10 (CHR ''-'' # ds) = Num (- int (digits_value ds))"
    using assms(1) by (simp add: parseInt10_def minus_not_space Let_def all)
qed

lemma parseInt10_int_to_string: "parseInt10 (int_to_string i) = Num i"
  using nat_to_string_digits
  by (simp add: int_to_string_def parseInt10_digits digits_value_nat_to_string)

lemma int_to_string_nonempty: "int_to_string i \<noteq> []"
  using nat_to_string_digits by (simp add: int_to_string_def)

lemma parseInt10_NaN: "parseInt10 ''NaN'' = NaN"
  by (simp add: parseInt10_eval)

lemma parseInt10_toString: "parseInt10 (toString n) = n"
  by (cases n) (simp_all add: parseInt10_int_to_string parseInt10_NaN)

subsection \<open>Dates\<close>

text \<open>The equations that evaluate a date at a given instant.\<close>

lemmas date_eval = toISOString_date_def YearFromTime_def MonthFromTime_def DateFromTime_def
  DayWithinYear_def Day_def msPerDay_def year_and_day.simps DaysInYear_def month_lengths_def
  iso_year_def padStart_def nat_to_string.simps digit_char_def

lemma msPerDay_pos: "0 < msPerDay"
  by (simp add: msPerDay_def)

lemma Day_add_days: "Day (t + k * msPerDay) = Day t + k"
  using msPerDay_pos by (simp add: Day_def)

lemma Day_of_days: "Day (n * msPerDay) = n"
  using msPerDay_pos by (simp add: Day_def)

text \<open>The date string of an instant depends on its day number only.\<close>

lemma toISOString_date_Day:
  assumes "Day t = Day t'"
  shows "toISOString_date t = toISOString_date t'"
  using assms
  by (simp add: toISOString_date_def YearFromTime_def MonthFromTime_def DateFromTime_def
      DayWithinYear_def)

text \<open>The day within the year, the month and the day of the month are in range.\<close>

lemma year_and_day_range:
  "0 \<le> snd (year_and_day y d) \<and> snd (year_and_day y d) < DaysInYear (fst (year_and_day y d))"
proof (induction y d rule: year_and_day.induct)
  case (1 y d)
  then show ?case by (simp add: year_and_day.simps [of y d])
qed

lemma month_and_date_range:
  assumes "0 \<le> d" and "d < sum_list ls" and "\<forall>l \<in> set ls. l \<le> 31"
  shows "0 \<le> fst (month_and_date ls d) \<and> fst (month_and_date ls d) < int (length ls) \<and>
         1 \<le> snd (month_and_date ls d) \<and> snd (month_and_date ls d) \<le> 31"
  using assms
proof (induction ls arbitrary: d)
  case Nil
  then show ?case by simp
next
  case (Cons l ls)
  show ?case
  proof (cases "d < l")
    case True
    with Cons.prems show ?thesis by simp
  next
    case False
    with Cons.prems have "0 \<le> d - l" "d - l < sum_list ls" "\<forall>l \<in> set ls. l \<le> 31"
      by simp_all
    from Cons.IH [OF this] False show ?thesis by simp
  qed
qed

lemma sum_list_month_lengths: "sum_list (month_lengths y) = DaysInYear y"
  by (simp add: month_lengths_def DaysInYear_def)

lemma month_lengths_le: "\<forall>l \<in> set (month_lengths y). l \<le> 31"
  by (simp add: month_lengths_def)

lemma MonthFromTime_range: "0 \<le> MonthFromTime t \<and> MonthFromTime t < 12"
proof -
  have len: "int (length (month_lengths (YearFromTime t))) = 12"
    by (simp add: month_lengths_def)
  have "0 \<le> DayWithinYear t" "DayWithinYear t < sum_list (month_lengths (YearFromTime t))"
    using year_and_day_range [of 1970 "Day t"]
    by (simp_all add: DayWithinYear_def YearFromTime_def sum_list_month_lengths)
  from month_and_date_range [OF this month_lengths_le] len
  show ?thesis by (simp add: MonthFromTime_def)
qed

lemma DateFromTime_range: "1 \<le> DateFromTime t \<and> DateFromTime t \<le> 31"
proof -
  have "0 \<le> DayWithinYear t" "DayWithinYear t < sum_list (month_lengths (YearFromTime t))"
    using year_and_day_range [of 1970 "Day t"]
    by (simp_all add: DayWithinYear_def YearFromTime_def sum_list_month_lengths)
  from month_and_date_range [OF this month_lengths_le]
  show ?thesis by (simp add: DateFromTime_def)
qed

lemma length_nat_to_string:
  "n < 10 \<Longrightarrow> length (nat_to_string n) = 1"
  "n < 100 \<Longrightarrow> length (nat_to_string n) \<le> 2"
  "n < 10000 \<Longrightarrow> length (nat_to_string n) \<le> 4"
proof -
  show one: "length (nat_to_string n) = 1" if "n < 10" for n
    using that by (simp add: nat_to_string.simps [of n])
  show two: "length (nat_to_string n) \<le> 2" if "n < 100" for n
  proof (cases "n < 10")
    case True
    then show ?thesis by (simp add: one)
  next
    case False
    with that have "n div 10 < 10" by simp
    with False show ?thesis by (simp add: nat_to_string.simps [of n] one)
  qed
  show "length (nat_to_string n) \<le> 4" if "n < 10000"
  proof (cases "n < 100")
    case True
    with two [of n] show ?thesis by simp
  next
    case False
    with that have a: "n div 10 < 1000" "\<not> n < 10" "\<not> n div 10 < 10" by simp_all
    then have b: "n div 10 div 10 < 100" by simp
    from a two [OF b] show ?thesis
      by (simp add: nat_to_string.simps [of n] nat_to_string.simps [of "n div 10"])
  qed
qed

lemma padStart_digits:
  assumes "length s \<le> n" and "\<forall>c \<in> set s. is_digit c"
  shows "length (padStart n CHR ''0'' s) = n \<and> (\<forall>c \<in> set (padStart n CHR ''0'' s). is_digit c)"
proof -
  have "is_digit CHR ''0''" by (simp add: is_digit_def digit_table_def)
  with assms show ?thesis by (auto simp: padStart_def)
qed

lemma padded_number:
  assumes "length (nat_to_string k) \<le> n"
  shows "length (padStart n CHR ''0'' (nat_to_string k)) = n \<and>
         (\<forall>c \<in> set (padStart n CHR ''0'' (nat_to_string k)). is_digit c)"
  using assms nat_to_string_digits [of k] by (intro padStart_digits) simp_all

lemma getDateString_format:
  assumes "0 \<le> YearFromTime t" and "YearFromTime t \<le> 9999"
  shows "\<exists>yyyy mm dd. getDateString t = yyyy @ ''-'' @ mm @ ''-'' @ dd \<and>
           length yyyy = 4 \<and> length mm = 2 \<and> length dd = 2 \<and>
           (\<forall>c \<in> set (yyyy @ mm @ dd). is_digit c)"
proof -
  let ?y = "padStart 4 CHR ''0'' (nat_to_string (nat (YearFromTime t)))"
  let ?m = "padStart 2 CHR ''0'' (nat_to_string (nat (MonthFromTime t + 1)))"
  let ?d = "padStart 2 CHR ''0'' (nat_to_string (nat (DateFromTime t)))"
  from assms have "nat (YearFromTime t) < 10000" by linarith
  then have "length (nat_to_string (nat (YearFromTime t))) \<le> 4"
    by (rule length_nat_to_string(3))
  then have y: "length ?y = 4 \<and> (\<forall>c \<in> set ?y. is_digit c)"
    by (rule padded_number)
  from MonthFromTime_range [of t] have "nat (MonthFromTime t + 1) < 100" by linarith
  then have "length (nat_to_string (nat (MonthFromTime t + 1))) \<le> 2"
    by (rule length_nat_to_string(2))
  then have m: "length ?m = 2 \<and> (\<forall>c \<in> set ?m. is_digit c)"
    by (rule padded_number)
  from DateFromTime_range [of t] have "nat (DateFromTime t) < 100" by linarith
  then have "length (nat_to_string (nat (DateFromTime t))) \<le> 2"
    by (rule length_nat_to_string(2))
  then have d: "length ?d = 2 \<and> (\<forall>c \<in> set ?d. is_digit c)"
    by (rule padded_number)
  have eq: "getDateString t = ?y @ ''-'' @ ?m @ ''-'' @ ?d"
    using assms by (simp add: getDateString_def toISOString_date_def iso_year_def)
  from y m d have "\<forall>c \<in> set (?y @ ?m @ ?d). is_digit c" by auto
  with eq y m d show ?thesis by blast
qed


subsection \<open>Clicks on the timer button\<close>

text \<open>The state after a click on the timer button while a session with a truthy anchor runs.\<close>

lemma handleTimer_stop:
  assumes "isTracking a" and "sessionStartRef a = Some s" and "s \<noteq> 0"
  shows "handleTimer now a =
       (let elapsed = (now - s) div 100;
            today = getDateString now;
            newDailyTotals =
              AList.update today (value_or_zero (dailyTotals a) today + elapsed) (dailyTotals a);
            newOverallTotal = plus_number (overallTotal a) (Num elapsed)
        in if 0 < elapsed \<and> elapsed \<le> 864000
           then a\<lparr>sessionTime := 0, isTracking := False, dailyTotals := newDailyTotals,
                  overallTotal := newOverallTotal, sessionStartRef := None,
                  storage := \<lparr>game_time_daily = Some (Json newDailyTotals),
                               game_time_overall = Some (toString newOverallTotal),
                               game_time_session_start = None\<rparr>\<rparr>
           else a\<lparr>sessionTime := 0, isTracking := False, sessionStartRef := None,
                  storage := (storage a)\<lparr>game_time_session_start := None\<rparr>\<rparr>)"
  using assms
  by (simp add: handleTimer_def calculateElapsedTenths_def Let_def MAX_SESSION_TENTHS_value
      saveOverallTotal_def saveDailyTotals_def clearSessionStart_def)

text \<open>Starting a session on a fresh component: the anchor is the clock value.\<close>

lemma handleTimer_start_Home:
  "handleTimer t (Home ls) =
     \<lparr>sessionTime = 0, isTracking = True, dailyTotals = [], overallTotal = Num 0,
      sessionStartRef = Some t,
      storage = ls\<lparr>game_time_session_start := Some (int_to_string t)\<rparr>\<rparr>"
  by (simp add: handleTimer_def Home_def saveSessionStart_def)

lemma getDateString_1012345: "getDateString 1012345 = ''1970-01-01''"
  by (simp add: getDateString_def date_eval)

subsection \<open>Stopping a session\<close>

text \<open>
  C1, as stated, fails for the anchor 0. The scenario of the specification read with
  the clock itself: the session starts when the clock reads 0 and stops when it reads
  12345. The elapsed time is 123 tenths, within the limit, and yet nothing is committed:
  the stop branch tests the anchor for truth before it computes anything, and 0 is falsy.
\<close>

theorem C1_counterexample:
  "isTracking (handleTimer 0 (Home empty_store)) \<and>
   sessionStartRef (handleTimer 0 (Home empty_store)) = Some 0 \<and>
   calculateElapsedTenths 12345 0 = 123 \<and> (0::int) < 123 \<and> 123 \<le> MAX_SESSION_TENTHS \<and>
   dailyTotals (handleTimer 12345 (handleTimer 0 (Home empty_store))) = [] \<and>
   overallTotal (handleTimer 12345 (handleTimer 0 (Home empty_store))) = Num 0"
  by (simp add: handleTimer_def Home_def empty_store_def calculateElapsedTenths_def
      MAX_SESSION_TENTHS_value saveSessionStart_def clearSessionStart_def)

text \<open>
  C1, amended: for every active session whose anchor \<open>s\<close> is not 0, the stop computes
  \<open>elapsed = floor ((now - s) / 100)\<close>. If \<open>0 < elapsed \<le> 864000\<close> it adds \<open>elapsed\<close> to the
  daily entry of the current date and to the overall total, and saves both; otherwise
  the totals and their stored entries stay as they are. No other date changes. In both
  cases the anchor is cleared, in the component and in the store, and the session is
  idle.
\<close>

theorem C1_stop_commits_within_limit:
  assumes "isTracking a" and "sessionStartRef a = Some s" and "s \<noteq> 0"
  shows "let elapsed = calculateElapsedTenths now s; today = getDateString now;
             a' = handleTimer now a
     in elapsed = (now - s) div 100 \<and>
        (if 0 < elapsed \<and> elapsed \<le> 864000
         then value_or_zero (dailyTotals a') today = value_or_zero (dailyTotals a) today + elapsed \<and>
              overallTotal a' = plus_number (overallTotal a) (Num elapsed) \<and>
              game_time_daily (storage a') = Some (Json (dailyTotals a')) \<and>
              game_time_overall (storage a') = Some (toString (overallTotal a'))
         else dailyTotals a' = dailyTotals a \<and> overallTotal a' = overallTotal a \<and>
              game_time_daily (storage a') = game_time_daily (storage a) \<and>
              game_time_overall (storage a') = game_time_overall (storage a)) \<and>
        (\<forall>date. date \<noteq> today \<longrightarrow>
           value_or_zero (dailyTotals a') date = value_or_zero (dailyTotals a) date) \<and>
        game_time_session_start (storage a') = None \<and> sessionStartRef a' = None \<and>
        \<not> isTracking a'"
  by (simp add: handleTimer_stop [OF assms] Let_def calculateElapsedTenths_def
      value_or_zero_update)

theorem C1_stop_witness:
  "isTracking (handleTimer 1000000 (Home empty_store)) \<and>
   sessionStartRef (handleTimer 1000000 (Home empty_store)) = Some 1000000 \<and>
   calculateElapsedTenths 1012345 1000000 = 123 \<and>
   value_or_zero (dailyTotals (handleTimer 1012345 (handleTimer 1000000 (Home empty_store))))
     ''1970-01-01'' = 123 \<and>
   overallTotal (handleTimer 1012345 (handleTimer 1000000 (Home empty_store))) = Num 123 \<and>
   game_time_session_start
     (storage (handleTimer 1012345 (handleTimer 1000000 (Home empty_store)))) = None"
proof -
  let ?a = "handleTimer 1000000 (Home empty_store)"
  have tracking: "isTracking ?a" and anchor: "sessionStartRef ?a = Some 1000000"
    by (simp_all add: handleTimer_start_Home)
  have before: "dailyTotals ?a = []" "overallTotal ?a = Num 0"
    by (simp_all add: handleTimer_start_Home)
  have elapsed: "calculateElapsedTenths 1012345 1000000 = 123"
    by (simp add: calculateElapsedTenths_def)
  from C1_stop_commits_within_limit [OF tracking anchor, of 1012345]
  show ?thesis
    by (simp add: Let_def elapsed before tracking anchor getDateString_1012345 value_or_zero_def)
qed

subsection \<open>Sessions over the limit\<close>

text \<open>
  In every state that a run reaches from a fresh component, a session is active if and
  only if the component holds an anchor.
\<close>

lemma anchor_iff_tracking_step:
  assumes "isTracking a \<longleftrightarrow> sessionStartRef a \<noteq> None" and "step ev a = Inr a'"
  shows "isTracking a' \<longleftrightarrow> sessionStartRef a' \<noteq> None"
proof (cases ev)
  case (Mount now)
  with assms show ?thesis
    by (auto simp: loadOnMount_def Let_def split: sum.splits option.splits number.splits if_splits)
next
  case (Timer now)
  with assms show ?thesis
    by (auto simp: handleTimer_def Let_def split: option.splits if_splits)
next
  case Discard
  with assms show ?thesis by (auto simp: handleDiscardSession_def)
next
  case (Tick now)
  with assms show ?thesis
    by (auto simp: timerTick_def Let_def split: option.splits if_splits)
qed

lemma anchor_iff_tracking_run:
  assumes "isTracking a \<longleftrightarrow> sessionStartRef a \<noteq> None" and "run evs a = Inr a'"
  shows "isTracking a' \<longleftrightarrow> sessionStartRef a' \<noteq> None"
  using assms
proof (induction evs arbitrary: a)
  case Nil
  then show ?case by simp
next
  case (Cons ev evs)
  from Cons.prems(2) obtain a1 where a1: "step ev a = Inr a1" "run evs a1 = Inr a'"
    by (auto split: sum.splits)
  from anchor_iff_tracking_step [OF Cons.prems(1) a1(1)] a1(2) show ?case
    by (rule Cons.IH)
qed

lemma anchor_iff_tracking_reachable:
  assumes "run evs (Home ls) = Inr a"
  shows "isTracking a \<longleftrightarrow> sessionStartRef a \<noteq> None"
  using _ assms by (rule anchor_iff_tracking_run) (simp add: Home_def)

text \<open>
  C2: whenever the elapsed time recomputed from the anchor exceeds 864000 tenths at an
  observation, the machine ends idle with the anchor cleared and nothing committed: the
  daily totals and the overall total are unchanged, in the component and in the store.
  The observation is a tick of the interval (which exists when the timer effect has
  installed it) or a click that stops the session. The statement holds in every state
  with an anchor, reachable or not; a reachable state with an active session has one.
\<close>

theorem C2_over_limit_discards:
  assumes "sessionStartRef a = Some s" and "calculateElapsedTenths now s > MAX_SESSION_TENTHS"
  shows "(timerInstalled a \<longrightarrow> discarded a (timerTick now a)) \<and>
         (isTracking a \<longrightarrow> discarded a (handleTimer now a))"
  using assms
  by (auto simp: timerInstalled_def timerTick_def handleTimer_def discarded_def Let_def
      clearSessionStart_def)

theorem C2_over_limit_witness:
  "timerInstalled (handleTimer 1000000 (Home empty_store)) \<and>
   isTracking (handleTimer 1000000 (Home empty_store)) \<and>
   sessionStartRef (handleTimer 1000000 (Home empty_store)) = Some 1000000 \<and>
   calculateElapsedTenths 87400100 1000000 = 864001 \<and>
   discarded (handleTimer 1000000 (Home empty_store))
     (timerTick 87400100 (handleTimer 1000000 (Home empty_store))) \<and>
   discarded (handleTimer 1000000 (Home empty_store))
     (handleTimer 87400100 (handleTimer 1000000 (Home empty_store)))"
proof -
  let ?a = "handleTimer 1000000 (Home empty_store)"
  have tracking: "isTracking ?a" and anchor: "sessionStartRef ?a = Some 1000000"
    by (simp_all add: handleTimer_start_Home)
  have installed: "timerInstalled ?a"
    by (simp add: timerInstalled_def handleTimer_start_Home)
  have elapsed: "calculateElapsedTenths 87400100 1000000 = 864001"
    by (simp add: calculateElapsedTenths_def)
  have over: "calculateElapsedTenths 87400100 1000000 > MAX_SESSION_TENTHS"
    by (simp add: elapsed MAX_SESSION_TENTHS_value)
  from C2_over_limit_discards [OF anchor over] tracking anchor installed elapsed
  show ?thesis by simp
qed

subsection \<open>The ledger invariant\<close>

lemma getOverallTotal_saved:
  "getOverallTotal (ls\<lparr>game_time_overall := Some (toString n)\<rparr>) = n"
  by (cases n) (simp_all add: getOverallTotal_def parseInt10_int_to_string int_to_string_nonempty
      parseInt10_NaN)

lemma totals_invariant_frame:
  assumes "totals_invariant a"
    and "dailyTotals a' = dailyTotals a" and "overallTotal a' = overallTotal a"
    and "game_time_daily (storage a') = game_time_daily (storage a)"
    and "game_time_overall (storage a') = game_time_overall (storage a)"
  shows "totals_invariant a'"
proof -
  have "getDailyTotals (storage a') = getDailyTotals (storage a)"
    and "getOverallTotal (storage a') = getOverallTotal (storage a)"
    using assms(4,5) by (simp_all add: getDailyTotals_def getOverallTotal_def)
  with assms(1-3) show ?thesis by (simp add: totals_invariant_def split: sum.splits)
qed

lemma totals_invariant_Mount:
  assumes "totals_invariant a"
  shows "\<exists>a'. loadOnMount now a = Inr a' \<and> totals_invariant a'"
proof -
  from assms obtain stored where stored: "getDailyTotals (storage a) = Inr stored"
    and cons: "ledger_consistent stored (getOverallTotal (storage a))"
    by (auto simp: totals_invariant_def split: sum.splits)
  define a1 where "a1 =
    (if length (Object_keys stored) > 0 \<or> gt_number (getOverallTotal (storage a)) (Num 0)
     then a\<lparr>dailyTotals := stored, overallTotal := getOverallTotal (storage a)\<rparr> else a)"
  have a1: "totals_invariant a1"
    using assms stored cons by (simp add: a1_def totals_invariant_def)
  obtain a' where a': "loadOnMount now a = Inr a'"
    and same: "dailyTotals a' = dailyTotals a1" "overallTotal a' = overallTotal a1"
      "game_time_daily (storage a') = game_time_daily (storage a1)"
      "game_time_overall (storage a') = game_time_overall (storage a1)"
    using stored
    by (auto simp: loadOnMount_def Let_def a1_def clearSessionStart_def
        split: option.splits number.splits)
  from totals_invariant_frame [OF a1 same] a' show ?thesis by blast
qed

lemma totals_invariant_handleTimer:
  assumes "totals_invariant a"
  shows "totals_invariant (handleTimer now a)"
proof (cases "isTracking a \<and> (\<exists>s. sessionStartRef a = Some s \<and> s \<noteq> 0 \<and>
    0 < calculateElapsedTenths now s \<and> calculateElapsedTenths now s \<le> MAX_SESSION_TENTHS)")
  case True
  then obtain s where s: "isTracking a" "sessionStartRef a = Some s" "s \<noteq> 0"
    "0 < calculateElapsedTenths now s" "calculateElapsedTenths now s \<le> MAX_SESSION_TENTHS"
    by blast
  from assms have state: "ledger_consistent (dailyTotals a) (overallTotal a)"
    by (simp add: totals_invariant_def)
  show ?thesis
    using s state
    by (simp add: handleTimer_def Let_def totals_invariant_def ledger_consistent_def
        sum_list_update clearSessionStart_def saveOverallTotal_def saveDailyTotals_def
        getDailyTotals_def truthy_text_def JSON_parse_def getOverallTotal_def
        parseInt10_int_to_string int_to_string_nonempty)
next
  case False
  then have "dailyTotals (handleTimer now a) = dailyTotals a"
    "overallTotal (handleTimer now a) = overallTotal a"
    "game_time_daily (storage (handleTimer now a)) = game_time_daily (storage a)"
    "game_time_overall (storage (handleTimer now a)) = game_time_overall (storage a)"
    by (auto simp: handleTimer_def Let_def clearSessionStart_def saveSessionStart_def
        split: option.splits)
  with assms show ?thesis by (rule totals_invariant_frame)
qed

lemma totals_invariant_Discard:
  assumes "totals_invariant a"
  shows "totals_invariant (handleDiscardSession a)"
  using assms
  by (rule totals_invariant_frame) (simp_all add: handleDiscardSession_def clearSessionStart_def)

lemma totals_invariant_Tick:
  assumes "totals_invariant a"
  shows "totals_invariant (timerTick now a)"
  using assms
  by (rule totals_invariant_frame)
     (simp_all add: timerTick_def clearSessionStart_def Let_def split: option.splits)

lemma totals_invariant_step:
  assumes "totals_invariant a"
  shows "\<exists>a'. step ev a = Inr a' \<and> totals_invariant a'"
proof (cases ev)
  case (Mount now)
  with totals_invariant_Mount [OF assms, of now] show ?thesis by auto
next
  case (Timer now)
  with totals_invariant_handleTimer [OF assms, of now] show ?thesis by auto
next
  case Discard
  with totals_invariant_Discard [OF assms] show ?thesis by auto
next
  case (Tick now)
  with totals_invariant_Tick [OF assms, of now] assms show ?thesis by auto
qed

text \<open>A click adds one duration (0 when nothing is committed) to the overall total and to
  the entry of the current date, and leaves every other date as it is.\<close>

lemma handleTimer_adds_same_duration:
  assumes "ledger_consistent (dailyTotals a) (overallTotal a)"
  shows "\<exists>t. overallTotal (handleTimer now a) = plus_number (overallTotal a) (Num t) \<and>
          value_or_zero (dailyTotals (handleTimer now a)) (getDateString now) =
            value_or_zero (dailyTotals a) (getDateString now) + t \<and>
          (\<forall>date. date \<noteq> getDateString now \<longrightarrow>
             value_or_zero (dailyTotals (handleTimer now a)) date =
               value_or_zero (dailyTotals a) date)"
proof (cases "isTracking a \<and> (\<exists>s. sessionStartRef a = Some s \<and> s \<noteq> 0 \<and>
    0 < calculateElapsedTenths now s \<and> calculateElapsedTenths now s \<le> MAX_SESSION_TENTHS)")
  case True
  then obtain s where s: "isTracking a" "sessionStartRef a = Some s" "s \<noteq> 0"
    "0 < calculateElapsedTenths now s" "calculateElapsedTenths now s \<le> MAX_SESSION_TENTHS"
    by blast
  have "overallTotal (handleTimer now a) =
          plus_number (overallTotal a) (Num (calculateElapsedTenths now s)) \<and>
        value_or_zero (dailyTotals (handleTimer now a)) (getDateString now) =
          value_or_zero (dailyTotals a) (getDateString now) + calculateElapsedTenths now s \<and>
        (\<forall>date. date \<noteq> getDateString now \<longrightarrow>
           value_or_zero (dailyTotals (handleTimer now a)) date = value_or_zero (dailyTotals a) date)"
    using s by (simp add: handleTimer_def Let_def value_or_zero_update)
  then show ?thesis by blast
next
  case False
  then have same: "dailyTotals (handleTimer now a) = dailyTotals a"
    "overallTotal (handleTimer now a) = overallTotal a"
    by (auto simp: handleTimer_def Let_def split: option.splits)
  from assms have "overallTotal a = plus_number (overallTotal a) (Num 0)"
    by (simp add: ledger_consistent_def)
  with same have "overallTotal (handleTimer now a) = plus_number (overallTotal a) (Num 0) \<and>
        value_or_zero (dailyTotals (handleTimer now a)) (getDateString now) =
          value_or_zero (dailyTotals a) (getDateString now) + 0 \<and>
        (\<forall>date. date \<noteq> getDateString now \<longrightarrow>
           value_or_zero (dailyTotals (handleTimer now a)) date = value_or_zero (dailyTotals a) date)"
    by simp
  then show ?thesis by blast
qed

text \<open>The invariant holds on a first visit and after every run that starts with it.\<close>

lemma totals_invariant_Home: "totals_invariant (Home empty_store)"
  by (simp add: totals_invariant_def Home_def empty_store_def ledger_consistent_def
      getDailyTotals_def getOverallTotal_def)

lemma totals_invariant_run:
  assumes "totals_invariant a"
  shows "\<exists>a'. run evs a = Inr a' \<and> totals_invariant a'"
  using assms
proof (induction evs arbitrary: a)
  case Nil
  then show ?case by simp
next
  case (Cons ev evs)
  from totals_invariant_step [OF Cons.prems, of ev]
  obtain a1 where a1: "step ev a = Inr a1" "totals_invariant a1" by blast
  from Cons.IH [OF a1(2)] a1(1) show ?case by simp
qed

text \<open>Without the store: every event but the mount keeps the ledger of the component consistent.\<close>

lemma ledger_consistent_step:
  assumes "ledger_consistent (dailyTotals a) (overallTotal a)" and "\<forall>now. ev \<noteq> Mount now"
  shows "\<exists>a'. step ev a = Inr a' \<and> ledger_consistent (dailyTotals a') (overallTotal a')"
proof (cases ev)
  case (Mount now)
  with assms(2) show ?thesis by simp
next
  case (Timer now)
  with assms(1) show ?thesis
    by (auto simp: handleTimer_def Let_def ledger_consistent_def sum_list_update
        split: option.splits)
next
  case Discard
  with assms(1) show ?thesis by (simp add: handleDiscardSession_def)
next
  case (Tick now)
  with assms(1) show ?thesis
    by (auto simp: timerTick_def Let_def split: option.splits)
qed

text \<open>
  C3: every operation preserves the invariant that the overall total is the sum of the
  daily totals. The operations are the events of \<open>step\<close>: the initialization, a click
  that starts or stops a session, a discard, a tick (with its automatic discard). The
  initialization reads the totals from the store, so the invariant is asked of the
  component and of what the store would load (\<open>totals_invariant\<close>); no event fails from
  a state that satisfies it. A click adds one duration, 0 when nothing is committed,
  both to the overall total and to the entry of the current date, and to no other
  entry. Every event but the initialization preserves the invariant of the component
  whatever the store holds.
\<close>

theorem C3_operations_preserve_ledger_invariant:
  "(totals_invariant a \<longrightarrow>
      (\<exists>a'. step ev a = Inr a' \<and> totals_invariant a' \<and>
         (\<forall>now. ev = Timer now \<longrightarrow>
            (\<exists>t. overallTotal a' = plus_number (overallTotal a) (Num t) \<and>
               value_or_zero (dailyTotals a') (getDateString now) =
                 value_or_zero (dailyTotals a) (getDateString now) + t \<and>
               (\<forall>date. date \<noteq> getDateString now \<longrightarrow>
                  value_or_zero (dailyTotals a') date = value_or_zero (dailyTotals a) date))))) \<and>
   (ledger_consistent (dailyTotals a) (overallTotal a) \<and> (\<forall>now. ev \<noteq> Mount now) \<longrightarrow>
      (\<exists>a'. step ev a = Inr a' \<and> ledger_consistent (dailyTotals a') (overallTotal a')))"
proof (intro conjI impI)
  assume inv: "totals_invariant a"
  from totals_invariant_step [OF inv, of ev]
  obtain a' where a': "step ev a = Inr a'" "totals_invariant a'" by blast
  from inv have cons: "ledger_consistent (dailyTotals a) (overallTotal a)"
    by (simp add: totals_invariant_def)
  have "\<exists>t. overallTotal a' = plus_number (overallTotal a) (Num t) \<and>
           value_or_zero (dailyTotals a') (getDateString now) =
             value_or_zero (dailyTotals a) (getDateString now) + t \<and>
           (\<forall>date. date \<noteq> getDateString now \<longrightarrow>
              value_or_zero (dailyTotals a') date = value_or_zero (dailyTotals a) date)"
    if "ev = Timer now" for now
    using handleTimer_adds_same_duration [OF cons, of now] a'(1) that by simp
  with a' show "\<exists>a'. step ev a = Inr a' \<and> totals_invariant a' \<and>
         (\<forall>now. ev = Timer now \<longrightarrow>
            (\<exists>t. overallTotal a' = plus_number (overallTotal a) (Num t) \<and>
               value_or_zero (dailyTotals a') (getDateString now) =
                 value_or_zero (dailyTotals a) (getDateString now) + t \<and>
               (\<forall>date. date \<noteq> getDateString now \<longrightarrow>
                  value_or_zero (dailyTotals a') date = value_or_zero (dailyTotals a) date)))"
    by blast
next
  assume "ledger_consistent (dailyTotals a) (overallTotal a) \<and> (\<forall>now. ev \<noteq> Mount now)"
  then show "\<exists>a'. step ev a = Inr a' \<and> ledger_consistent (dailyTotals a') (overallTotal a')"
    using ledger_consistent_step by blast
qed

theorem C3_invariant_witness:
  "totals_invariant (handleTimer 1000000 (Home empty_store)) \<and>
   ledger_consistent (dailyTotals (handleTimer 1000000 (Home empty_store)))
     (overallTotal (handleTimer 1000000 (Home empty_store))) \<and>
   step (Timer 1012345) (handleTimer 1000000 (Home empty_store)) =
     Inr (handleTimer 1012345 (handleTimer 1000000 (Home empty_store))) \<and>
   totals_invariant (handleTimer 1012345 (handleTimer 1000000 (Home empty_store))) \<and>
   ledger_consistent (dailyTotals (handleTimer 1012345 (handleTimer 1000000 (Home empty_store))))
     (overallTotal (handleTimer 1012345 (handleTimer 1000000 (Home empty_store)))) \<and>
   dailyTotals (handleTimer 1012345 (handleTimer 1000000 (Home empty_store))) =
     [(''1970-01-01'', 123)] \<and>
   overallTotal (handleTimer 1012345 (handleTimer 1000000 (Home empty_store))) = Num 123"
proof -
  let ?a = "handleTimer 1000000 (Home empty_store)"
  have inv: "totals_invariant ?a"
    using totals_invariant_handleTimer [OF totals_invariant_Home] .
  then have cons: "ledger_consistent (dailyTotals ?a) (overallTotal ?a)"
    by (simp add: totals_invariant_def)
  have tracking: "isTracking ?a" and anchor: "sessionStartRef ?a = Some 1000000"
    by (simp_all add: handleTimer_start_Home)
  have after: "dailyTotals (handleTimer 1012345 ?a) = [(''1970-01-01'', 123)]"
    "overallTotal (handleTimer 1012345 ?a) = Num 123"
    using handleTimer_stop [OF tracking anchor, of 1012345]
    by (simp_all add: Let_def getDateString_1012345 handleTimer_start_Home value_or_zero_def)
  from C3_operations_preserve_ledger_invariant [of ?a "Timer 1012345"] inv cons after
  show ?thesis by auto
qed

subsection \<open>Two commits on one date\<close>

lemma plus_number_zero: "plus_number n (Num 0) = n"
  by (cases n) simp_all

lemma plus_number_assoc: "plus_number (plus_number n (Num a)) (Num b) = plus_number n (Num (a + b))"
  by (cases n) simp_all

lemma toString_nonempty: "toString n \<noteq> []"
  by (cases n) (simp_all add: int_to_string_nonempty)

lemma handleTimer_start:
  assumes "\<not> isTracking st"
  shows "handleTimer t st = st\<lparr>sessionStartRef := Some t,
           storage := (storage st)\<lparr>game_time_session_start := Some (int_to_string t)\<rparr>,
           isTracking := True\<rparr>"
  using assms by (simp add: handleTimer_def saveSessionStart_def)

lemma stop_within_limit:
  assumes "isTracking st" and "sessionStartRef st = Some s" and "s \<noteq> 0"
    and "calculateElapsedTenths now s = e" and "0 \<le> e" and "e \<le> MAX_SESSION_TENTHS"
  shows "value_or_zero (dailyTotals (handleTimer now st)) (getDateString now) =
           value_or_zero (dailyTotals st) (getDateString now) + e"
    and "overallTotal (handleTimer now st) = plus_number (overallTotal st) (Num e)"
    and "game_time_daily (storage (handleTimer now st)) =
           (if 0 < e then Some (Json (dailyTotals (handleTimer now st)))
            else game_time_daily (storage st))"
    and "game_time_overall (storage (handleTimer now st)) =
           (if 0 < e then Some (toString (overallTotal (handleTimer now st)))
            else game_time_overall (storage st))"
    and "0 < e \<or> dailyTotals (handleTimer now st) = dailyTotals st"
    and "\<not> isTracking (handleTimer now st)"
  using assms
  by (auto simp: handleTimer_def Let_def value_or_zero_update plus_number_zero
      saveOverallTotal_def saveDailyTotals_def clearSessionStart_def)

lemma persisted_saved:
  assumes "game_time_daily (storage a) = Some (Json (dailyTotals a))"
    and "game_time_overall (storage a) = Some (toString (overallTotal a))"
  shows "persisted a"
  using assms
  by (simp add: persisted_def getDailyTotals_def truthy_text_def JSON_parse_def
      getOverallTotal_def toString_nonempty parseInt10_toString)

lemma persisted_frame:
  assumes "persisted a"
    and "dailyTotals a' = dailyTotals a" and "overallTotal a' = overallTotal a"
    and "game_time_daily (storage a') = game_time_daily (storage a)"
    and "game_time_overall (storage a') = game_time_overall (storage a)"
  shows "persisted a'"
proof -
  have "getDailyTotals (storage a') = getDailyTotals (storage a)"
    and "getOverallTotal (storage a') = getOverallTotal (storage a)"
    using assms(4,5) by (simp_all add: getDailyTotals_def getOverallTotal_def)
  with assms(1-3) show ?thesis by (simp add: persisted_def)
qed

text \<open>
  C6: two sessions committed one after the other on the same date. The first session
  runs in \<open>st\<close> and is stopped at \<open>stop1\<close> with duration \<open>a\<close>; the second is started at
  \<open>s2\<close> and stopped at \<open>stop2\<close> with duration \<open>b\<close>; both stops fall on \<open>date\<close>. Whatever
  the ledger held before, the entry of \<open>date\<close> grows by \<open>a + b\<close> and so does the overall
  total. A committed duration is within the limit of 864000 tenths; a duration of 0 is
  not written and adds nothing. The store follows: once one of the two durations is
  positive the two stored entries hold the new totals of the component, and when both
  are 0 they are untouched. So when the store mirrored the component before, what the
  store would load afterwards is the stored entry of \<open>date\<close> plus \<open>a + b\<close> and the stored
  overall total plus \<open>a + b\<close>.
\<close>

theorem C6_two_commits_add_up:
  assumes "isTracking st" and "sessionStartRef st = Some s1" and "s1 \<noteq> 0"
    and "calculateElapsedTenths stop1 s1 = a" and "0 \<le> a" and "a \<le> MAX_SESSION_TENTHS"
    and "s2 \<noteq> 0"
    and "calculateElapsedTenths stop2 s2 = b" and "0 \<le> b" and "b \<le> MAX_SESSION_TENTHS"
    and "getDateString stop1 = date" and "getDateString stop2 = date"
  shows "let st' = handleTimer stop2 (handleTimer s2 (handleTimer stop1 st))
     in value_or_zero (dailyTotals st') date = value_or_zero (dailyTotals st) date + a + b \<and>
        overallTotal st' = plus_number (overallTotal st) (Num (a + b)) \<and>
        (if 0 < a \<or> 0 < b
         then game_time_daily (storage st') = Some (Json (dailyTotals st')) \<and>
              game_time_overall (storage st') = Some (toString (overallTotal st'))
         else game_time_daily (storage st') = game_time_daily (storage st) \<and>
              game_time_overall (storage st') = game_time_overall (storage st)) \<and>
        (persisted st \<longrightarrow>
           (case getDailyTotals (storage st) of
              Inl e \<Rightarrow> False
            | Inr before \<Rightarrow>
                (case getDailyTotals (storage st') of
                   Inl e \<Rightarrow> False
                 | Inr after \<Rightarrow> value_or_zero after date = value_or_zero before date + a + b)) \<and>
           getOverallTotal (storage st') = plus_number (getOverallTotal (storage st)) (Num (a + b)))"
proof -
  let ?st1 = "handleTimer stop1 st"
  let ?st2 = "handleTimer s2 ?st1"
  let ?st3 = "handleTimer stop2 ?st2"
  note first = stop_within_limit [OF assms(1,2,3,4,5,6), unfolded assms(11)]
  have started: "isTracking ?st2" "sessionStartRef ?st2 = Some s2"
    "dailyTotals ?st2 = dailyTotals ?st1" "overallTotal ?st2 = overallTotal ?st1"
    "game_time_daily (storage ?st2) = game_time_daily (storage ?st1)"
    "game_time_overall (storage ?st2) = game_time_overall (storage ?st1)"
    by (simp_all add: handleTimer_start [OF first(6)])
  note second = stop_within_limit [OF started(1,2) assms(7,8,9,10), unfolded assms(12)]
  have entry: "value_or_zero (dailyTotals ?st3) date = value_or_zero (dailyTotals st) date + a + b"
    using first(1) second(1) started(3) by simp
  have overall: "overallTotal ?st3 = plus_number (overallTotal st) (Num (a + b))"
    using first(2) second(2) started(4) by (simp add: plus_number_assoc)
  have store: "if 0 < a \<or> 0 < b
         then game_time_daily (storage ?st3) = Some (Json (dailyTotals ?st3)) \<and>
              game_time_overall (storage ?st3) = Some (toString (overallTotal ?st3))
         else game_time_daily (storage ?st3) = game_time_daily (storage st) \<and>
              game_time_overall (storage ?st3) = game_time_overall (storage st)"
  proof (cases "0 < b")
    case True
    with second(3,4) show ?thesis by simp
  next
    case False
    with assms(9) have b: "b = 0" by simp
    with second(5) have same: "dailyTotals ?st3 = dailyTotals ?st2" by simp
    from b second(2) have same': "overallTotal ?st3 = overallTotal ?st2"
      by (simp add: plus_number_zero)
    from b second(3,4) first(3,4) started same same' show ?thesis by simp
  qed
  have mirror: "persisted ?st3" if p: "persisted st"
  proof (cases "0 < a \<or> 0 < b")
    case True
    with store show ?thesis by (auto intro: persisted_saved)
  next
    case False
    with assms(5,9) have z: "a = 0" "b = 0" by simp_all
    from z first(5) second(5) started(3) have d: "dailyTotals ?st3 = dailyTotals st" by simp
    from z overall have o: "overallTotal ?st3 = overallTotal st" by (simp add: plus_number_zero)
    from False store have "game_time_daily (storage ?st3) = game_time_daily (storage st)"
      "game_time_overall (storage ?st3) = game_time_overall (storage st)" by simp_all
    with p d o show ?thesis by (rule persisted_frame)
  qed
  have read: "(case getDailyTotals (storage st) of
              Inl e \<Rightarrow> False
            | Inr before \<Rightarrow>
                (case getDailyTotals (storage ?st3) of
                   Inl e \<Rightarrow> False
                 | Inr after \<Rightarrow> value_or_zero after date = value_or_zero before date + a + b)) \<and>
           getOverallTotal (storage ?st3) = plus_number (getOverallTotal (storage st)) (Num (a + b))"
    if p: "persisted st"
    using mirror [OF p] p entry overall by (simp add: persisted_def)
  from entry overall store read show ?thesis by (simp add: Let_def)
qed


theorem C6_two_commits_witness:
  "isTracking (handleTimer 1000000 (Home empty_store)) \<and>
   sessionStartRef (handleTimer 1000000 (Home empty_store)) = Some 1000000 \<and>
   persisted (handleTimer 1000000 (Home empty_store)) \<and>
   calculateElapsedTenths 1012345 1000000 = 123 \<and> calculateElapsedTenths 2005000 2000000 = 50 \<and>
   getDateString 1012345 = ''1970-01-01'' \<and> getDateString 2005000 = ''1970-01-01'' \<and>
   value_or_zero
     (dailyTotals (handleTimer 2005000 (handleTimer 2000000
        (handleTimer 1012345 (handleTimer 1000000 (Home empty_store))))))
     ''1970-01-01'' = 173 \<and>
   overallTotal (handleTimer 2005000 (handleTimer 2000000
     (handleTimer 1012345 (handleTimer 1000000 (Home empty_store))))) = Num 173 \<and>
   game_time_daily (storage (handleTimer 2005000 (handleTimer 2000000
     (handleTimer 1012345 (handleTimer 1000000 (Home empty_store)))))) =
     Some (Json (dailyTotals (handleTimer 2005000 (handleTimer 2000000
       (handleTimer 1012345 (handleTimer 1000000 (Home empty_store))))))) \<and>
   game_time_overall (storage (handleTimer 2005000 (handleTimer 2000000
     (handleTimer 1012345 (handleTimer 1000000 (Home empty_store)))))) = Some ''173'' \<and>
   getOverallTotal (storage (handleTimer 2005000 (handleTimer 2000000
     (handleTimer 1012345 (handleTimer 1000000 (Home empty_store)))))) = Num 173"
proof -
  let ?st = "handleTimer 1000000 (Home empty_store)"
  let ?st' = "handleTimer 2005000 (handleTimer 2000000 (handleTimer 1012345 ?st))"
  have st: "isTracking ?st" "sessionStartRef ?st = Some 1000000" "overallTotal ?st = Num 0"
    "dailyTotals ?st = []"
    by (simp_all add: handleTimer_start_Home)
  have p: "persisted ?st"
    by (simp add: persisted_def handleTimer_start_Home getDailyTotals_def getOverallTotal_def
        empty_store_def)
  then have o: "getOverallTotal (storage ?st) = Num 0" using st(3) by (simp add: persisted_def)
  have e1: "calculateElapsedTenths 1012345 1000000 = 123"
    and e2: "calculateElapsedTenths 2005000 2000000 = 50"
    by (simp_all add: calculateElapsedTenths_def)
  have d1: "getDateString 1012345 = ''1970-01-01''" by (rule getDateString_1012345)
  have d2: "getDateString 2005000 = ''1970-01-01''"
    by (simp add: getDateString_def date_eval)
  have s173: "int_to_string 173 = ''173''"
    by (simp add: int_to_string_def nat_to_string.simps digit_char_def)
  have "(1000000::int) \<noteq> 0" "(0::int) \<le> 123" "(123::int) \<le> MAX_SESSION_TENTHS"
    "(2000000::int) \<noteq> 0" "(0::int) \<le> 50" "(50::int) \<le> MAX_SESSION_TENTHS"
    by (simp_all add: MAX_SESSION_TENTHS_value)
  from C6_two_commits_add_up [OF st(1) st(2) this(1) e1 this(2,3,4) e2 this(5,6) d1 d2]
  have entry: "value_or_zero (dailyTotals ?st') ''1970-01-01'' =
      value_or_zero (dailyTotals ?st) ''1970-01-01'' + 123 + 50"
    and overall: "overallTotal ?st' = plus_number (overallTotal ?st) (Num (123 + 50))"
    and daily: "game_time_daily (storage ?st') = Some (Json (dailyTotals ?st'))"
    and stored: "game_time_overall (storage ?st') = Some (toString (overallTotal ?st'))"
    and read: "getOverallTotal (storage ?st') =
      plus_number (getOverallTotal (storage ?st)) (Num (123 + 50))"
    using p by (simp_all add: Let_def)
  from entry st(4) have r1: "value_or_zero (dailyTotals ?st') ''1970-01-01'' = 173"
    by (simp add: value_or_zero_def)
  from overall st(3) have r2: "overallTotal ?st' = Num 173" by simp
  from stored r2 have r3: "game_time_overall (storage ?st') = Some ''173''"
    by (simp add: s173)
  from read o have r4: "getOverallTotal (storage ?st') = Num 173" by simp
  from st(1,2) p e1 e2 d1 d2 r1 r2 daily r3 r4 show ?thesis by simp
qed

subsection \<open>The overall average\<close>

lemma foldl_plus_sum_list:
  "foldl (\<lambda>acc x. acc + f x) (z::int) xs = z + sum_list (map f xs)"
  by (induction xs arbitrary: z) simp_all

lemma sum_values_by_keys:
  assumes "distinct (map fst totals)"
  shows "sum_list (map (value_or_zero totals \<circ> fst) totals) = sum_list (map snd totals)"
proof -
  have "value_or_zero totals (fst p) = snd p" if "p \<in> set totals" for p
  proof -
    from that have "(fst p, snd p) \<in> set totals" by simp
    with assms have "map_of totals (fst p) = Some (snd p)" by (rule map_of_is_SomeI)
    then show ?thesis by (simp add: value_or_zero_def)
  qed
  then have "map (value_or_zero totals \<circ> fst) totals = map snd totals"
    by simp
  then show ?thesis by (rule arg_cong)
qed

text \<open>
  C8: for daily totals with one entry per date (as every JavaScript object),
  \<^verbatim>\<open>calculateOverallAverage\<close> is the sum of all entries, which under the ledger invariant
  is the overall total, divided by the number of dates with an entry. It always
  returns a finite number: on the empty mapping it returns 0 and divides by nothing.
\<close>

theorem C8_overall_average:
  assumes "distinct (map fst totals)"
  shows "calculateOverallAverage totals =
           Some (if card (fst ` set totals) = 0 then 0
                 else of_int (sum_list (map snd totals)) / of_nat (card (fst ` set totals))) \<and>
         calculateOverallAverage [] = Some 0 \<and>
         (\<forall>n. ledger_consistent totals (Num n) \<longrightarrow>
            calculateOverallAverage totals =
              Some (if card (fst ` set totals) = 0 then 0
                    else of_int n / of_nat (card (fst ` set totals))))"
proof -
  have card: "card (fst ` set totals) = length totals"
    using assms by (metis distinct_card length_map set_map)
  have main: "calculateOverallAverage totals =
           Some (if card (fst ` set totals) = 0 then 0
                 else of_int (sum_list (map snd totals)) / of_nat (card (fst ` set totals)))"
    unfolding card
    by (simp add: calculateOverallAverage_def Object_keys_def Let_def js_divide_def
        foldl_plus_sum_list sum_values_by_keys [OF assms])
  have "calculateOverallAverage [] = Some 0"
    by (simp add: calculateOverallAverage_def Object_keys_def)
  with main show ?thesis by (simp add: ledger_consistent_def)
qed


theorem C8_overall_average_witness:
  "distinct (map fst [(''2024-01-07'', 10::int), (''2024-01-08'', 5)]) \<and>
   ledger_consistent [(''2024-01-07'', 10), (''2024-01-08'', 5)] (Num 15) \<and>
   calculateOverallAverage [(''2024-01-07'', 10), (''2024-01-08'', 5)] = Some (15 / 2)"
proof -
  have d: "distinct (map fst [(''2024-01-07'', 10::int), (''2024-01-08'', 5)])" by simp
  have l: "ledger_consistent [(''2024-01-07'', 10), (''2024-01-08'', 5)] (Num 15)"
    by (simp add: ledger_consistent_def)
  from C8_overall_average [OF d] l d show ?thesis by simp
qed

subsection \<open>Initialization\<close>

lemma getSessionStart_parse:
  assumes "game_time_session_start ls = Some text" and "parseInt10 text = Num s"
  shows "getSessionStart ls = Some (Num s)"
proof -
  have "parseInt10 [] = NaN" by (simp add: parseInt10_def)
  with assms(2) have "text \<noteq> []" by auto
  with assms show ?thesis by (simp add: getSessionStart_def)
qed

lemma parseInt10_empty: "parseInt10 [] = NaN"
  by (simp add: parseInt10_def)

lemma loadOnMount_Home:
  assumes "getDailyTotals ls = Inr loaded"
  shows "loadOnMount now (Home ls) =
     Inr (let a1 = (if loaded \<noteq> [] \<or> gt_number (getOverallTotal ls) (Num 0)
                    then (Home ls)\<lparr>dailyTotals := loaded, overallTotal := getOverallTotal ls\<rparr>
                    else Home ls)
          in case getSessionStart ls of
               None \<Rightarrow> a1
             | Some NaN \<Rightarrow> a1
             | Some (Num saved) \<Rightarrow>
                 if saved \<noteq> 0 then
                   if (now - saved) div 100 > 864000
                   then a1\<lparr>storage := ls\<lparr>game_time_session_start := None\<rparr>\<rparr>
                   else a1\<lparr>sessionStartRef := Some saved, sessionTime := (now - saved) div 100,
                           isTracking := True\<rparr>
                 else a1)"
  using assms
  by (auto simp: loadOnMount_def Home_def Let_def Object_keys_def calculateElapsedTenths_def
      MAX_SESSION_TENTHS_def MAX_SESSION_HOURS_def clearSessionStart_def
      split: option.splits number.splits)

lemma Home_sel:
  "sessionTime (Home ls) = 0" "isTracking (Home ls) = False" "dailyTotals (Home ls) = []"
  "overallTotal (Home ls) = Num 0" "sessionStartRef (Home ls) = None" "storage (Home ls) = ls"
  by (simp_all add: Home_def)

text \<open>
  C5, as stated, fails for a stored anchor that reads as 0: the restore path tests the
  number for truth. With the clock at 5000 the elapsed time would be 50 tenths, within
  the limit, and the machine does not resume; with the clock of today the elapsed time
  is far over the limit, and the stored anchor is not cleared. In both cases the load
  returns the component as it was.
\<close>

theorem C5_counterexample:
  "parseInt10 ''0'' = Num 0 \<and>
   calculateElapsedTenths 5000 0 = 50 \<and> 50 \<le> MAX_SESSION_TENTHS \<and>
   loadOnMount 5000 (Home (empty_store\<lparr>game_time_session_start := Some ''0''\<rparr>)) =
     Inr (Home (empty_store\<lparr>game_time_session_start := Some ''0''\<rparr>)) \<and>
   calculateElapsedTenths 1700000000000 0 > MAX_SESSION_TENTHS \<and>
   loadOnMount 1700000000000 (Home (empty_store\<lparr>game_time_session_start := Some ''0''\<rparr>)) =
     Inr (Home (empty_store\<lparr>game_time_session_start := Some ''0''\<rparr>)) \<and>
   \<not> isTracking (Home (empty_store\<lparr>game_time_session_start := Some ''0''\<rparr>)) \<and>
   game_time_session_start (storage (Home (empty_store\<lparr>game_time_session_start := Some ''0''\<rparr>))) =
     Some ''0''"
proof -
  have p: "parseInt10 ''0'' = Num 0"
    by (simp add: parseInt10_eval)
  have l: "getDailyTotals (empty_store\<lparr>game_time_session_start := Some ''0''\<rparr>) = Inr []"
    by (simp add: getDailyTotals_def empty_store_def)
  show ?thesis
    using loadOnMount_Home [OF l, of 5000] loadOnMount_Home [OF l, of 1700000000000]
    by (simp add: p getSessionStart_def getOverallTotal_def empty_store_def
        calculateElapsedTenths_def MAX_SESSION_TENTHS_value Home_sel)
qed

text \<open>
  C5, amended: on initialization with a stored anchor that reads as an integer \<open>s\<close> other
  than 0, and daily totals that load, the elapsed time is recomputed from the anchor.
  If it exceeds 864000 tenths the stored anchor is cleared and the machine is not
  active; otherwise the machine is active with the anchor \<open>s\<close> and the elapsed time
  \<open>floor ((now - s) / 100)\<close>, and the store is untouched. An anchor 5000 ms before the
  clock gives 50 tenths.
\<close>

theorem C5_restore_nonzero_anchor:
  assumes "game_time_session_start ls = Some text" and "parseInt10 text = Num s" and "s \<noteq> 0"
    and "getDailyTotals ls = Inr loaded"
  shows "\<exists>a'. loadOnMount now (Home ls) = Inr a' \<and>
     (if calculateElapsedTenths now s > 864000
      then \<not> isTracking a' \<and> sessionStartRef a' = None \<and> sessionTime a' = 0 \<and>
           game_time_session_start (storage a') = None
      else isTracking a' \<and> sessionStartRef a' = Some s \<and>
           sessionTime a' = calculateElapsedTenths now s \<and>
           sessionTime a' = (now - s) div 100 \<and> storage a' = ls) \<and>
     calculateElapsedTenths now (now - 5000) = 50"
  by (simp add: loadOnMount_Home [OF assms(4)] getSessionStart_parse [OF assms(1,2)] assms(3)
      Let_def Home_sel calculateElapsedTenths_def)


theorem C5_restore_witness:
  "game_time_session_start (empty_store\<lparr>game_time_session_start := Some ''1700000000000''\<rparr>) =
     Some ''1700000000000'' \<and>
   parseInt10 ''1700000000000'' = Num 1700000000000 \<and>
   getDailyTotals (empty_store\<lparr>game_time_session_start := Some ''1700000000000''\<rparr>) = Inr [] \<and>
   (case loadOnMount 1700000005000
           (Home (empty_store\<lparr>game_time_session_start := Some ''1700000000000''\<rparr>)) of
      Inl e \<Rightarrow> False
    | Inr a' \<Rightarrow> isTracking a' \<and> sessionStartRef a' = Some 1700000000000 \<and> sessionTime a' = 50)"
proof -
  let ?ls = "empty_store\<lparr>game_time_session_start := Some ''1700000000000''\<rparr>"
  have t: "game_time_session_start ?ls = Some ''1700000000000''" by simp
  have p: "parseInt10 ''1700000000000'' = Num 1700000000000"
    by (simp add: parseInt10_eval)
  have nz: "(1700000000000::int) \<noteq> 0" by simp
  have l: "getDailyTotals ?ls = Inr []" by (simp add: getDailyTotals_def empty_store_def)
  have e: "calculateElapsedTenths 1700000005000 1700000000000 = 50"
    by (simp add: calculateElapsedTenths_def)
  from C5_restore_nonzero_anchor [OF t p nz l, of 1700000005000]
  obtain a' where "loadOnMount 1700000005000 (Home ?ls) = Inr a'"
    and "isTracking a'" "sessionStartRef a' = Some 1700000000000" "sessionTime a' = 50"
    unfolding e by auto
  with t p l show ?thesis by simp
qed

text \<open>
  C10: a stored session start that reads as the integer 0 is treated as if no anchor
  were stored. The load gives what it gives without the entry, but for the entry, which
  stays in the store: the machine stays idle, no anchor and no elapsed time are
  recovered.
\<close>

theorem C10_zero_anchor_not_restored:
  assumes "game_time_session_start ls = Some text" and "parseInt10 text = Num 0"
  shows "loadOnMount now (Home ls) =
           (case loadOnMount now (Home (ls\<lparr>game_time_session_start := None\<rparr>)) of
              Inl e \<Rightarrow> Inl e
            | Inr a' \<Rightarrow> Inr (a'\<lparr>storage := ls\<rparr>)) \<and>
         (\<forall>a'. loadOnMount now (Home ls) = Inr a' \<longrightarrow>
            \<not> isTracking a' \<and> sessionStartRef a' = None \<and> sessionTime a' = 0 \<and>
            game_time_session_start (storage a') = Some text)"
proof -
  have keep: "getDailyTotals (ls\<lparr>game_time_session_start := None\<rparr>) = getDailyTotals ls"
    "getOverallTotal (ls\<lparr>game_time_session_start := None\<rparr>) = getOverallTotal ls"
    "getSessionStart (ls\<lparr>game_time_session_start := None\<rparr>) = None"
    by (simp_all add: getDailyTotals_def getOverallTotal_def getSessionStart_def)
  show ?thesis
  proof (cases "getDailyTotals ls")
    case (Inl e)
    then show ?thesis by (simp add: loadOnMount_def keep Home_sel)
  next
    case (Inr loaded)
    with keep have l: "getDailyTotals (ls\<lparr>game_time_session_start := None\<rparr>) = Inr loaded"
      by simp
    show ?thesis
      by (simp add: loadOnMount_Home [OF Inr] loadOnMount_Home [OF l] keep
          getSessionStart_parse [OF assms] Let_def Home_sel assms(1))
  qed
qed

theorem C10_zero_anchor_witness:
  "game_time_session_start (empty_store\<lparr>game_time_session_start := Some ''-0''\<rparr>) = Some ''-0'' \<and>
   parseInt10 ''-0'' = Num 0 \<and>
   loadOnMount 1700000000000 (Home (empty_store\<lparr>game_time_session_start := Some ''-0''\<rparr>)) =
     Inr (Home (empty_store\<lparr>game_time_session_start := Some ''-0''\<rparr>))"
proof -
  let ?ls = "empty_store\<lparr>game_time_session_start := Some ''-0''\<rparr>"
  have t: "game_time_session_start ?ls = Some ''-0''" by simp
  have p: "parseInt10 ''-0'' = Num 0"
    by (simp add: parseInt10_eval)
  have l: "getDailyTotals empty_store = Inr []" by (simp add: getDailyTotals_def empty_store_def)
  have absent: "loadOnMount 1700000000000 (Home empty_store) = Inr (Home empty_store)"
    using loadOnMount_Home [OF l, of 1700000000000]
    by (simp add: getOverallTotal_def getSessionStart_def empty_store_def)
  have cleared: "?ls\<lparr>game_time_session_start := None\<rparr> = empty_store"
    by (simp add: empty_store_def)
  from C10_zero_anchor_not_restored [OF t p, of 1700000000000]
  have "loadOnMount 1700000000000 (Home ?ls) = Inr ((Home empty_store)\<lparr>storage := ?ls\<rparr>)"
    by (simp add: cleared absent)
  with t p show ?thesis by (simp add: Home_def)
qed

subsection \<open>Malformed entries of the store\<close>

text \<open>
  C9, as stated, fails for two of the three entries. A daily-totals text that is not
  JSON makes the load fail with the \<^verbatim>\<open>SyntaxError\<close> of \<^verbatim>\<open>JSON.parse\<close>, and the overall
  total of 120 that the store holds is not loaded, whereas without the daily entry it
  is. An overall-total text without digits reads as \<^verbatim>\<open>NaN\<close>, not as 0, and \<^verbatim>\<open>NaN\<close>
  becomes the overall total of the component.
\<close>

theorem C9_counterexample:
  "loadOnMount 5000 (Home \<lparr>game_time_daily = Some (NotJson ''{oops''),
       game_time_overall = Some ''120'', game_time_session_start = None\<rparr>) = Inl SyntaxError \<and>
   loadOnMount 5000 (Home \<lparr>game_time_daily = None,
       game_time_overall = Some ''120'', game_time_session_start = None\<rparr>) =
     Inr ((Home \<lparr>game_time_daily = None, game_time_overall = Some ''120'',
                   game_time_session_start = None\<rparr>)\<lparr>overallTotal := Num 120\<rparr>) \<and>
   parseInt10 ''abc'' = NaN \<and>
   getOverallTotal \<lparr>game_time_daily = Some (Json [(''2024-01-01'', 5)]),
       game_time_overall = Some ''abc'', game_time_session_start = None\<rparr> = NaN \<and>
   loadOnMount 5000 (Home \<lparr>game_time_daily = Some (Json [(''2024-01-01'', 5)]),
       game_time_overall = Some ''abc'', game_time_session_start = None\<rparr>) =
     Inr ((Home \<lparr>game_time_daily = Some (Json [(''2024-01-01'', 5)]),
                   game_time_overall = Some ''abc'', game_time_session_start = None\<rparr>)
            \<lparr>dailyTotals := [(''2024-01-01'', 5)], overallTotal := NaN\<rparr>)"
  by (simp add: loadOnMount_def getDailyTotals_def truthy_text_def JSON_parse_def
      getOverallTotal_def getSessionStart_def Object_keys_def Home_def parseInt10_eval)

text \<open>An empty text in the daily or the overall entry is falsy and is treated as absent.\<close>

lemma empty_daily_as_absent:
  assumes "game_time_daily ls = Some (NotJson [])"
  shows "loadOnMount now (Home ls) =
        (case loadOnMount now (Home (ls\<lparr>game_time_daily := None\<rparr>)) of
           Inl e \<Rightarrow> Inl e
         | Inr a' \<Rightarrow> Inr (a'\<lparr>storage := (storage a')\<lparr>game_time_daily := Some (NotJson [])\<rparr>\<rparr>))"
proof -
  have l: "getDailyTotals ls = Inr []"
    using assms by (simp add: getDailyTotals_def truthy_text_def)
  have l': "getDailyTotals (ls\<lparr>game_time_daily := None\<rparr>) = Inr []"
    by (simp add: getDailyTotals_def)
  have keep: "getOverallTotal (ls\<lparr>game_time_daily := None\<rparr>) = getOverallTotal ls"
    "getSessionStart (ls\<lparr>game_time_daily := None\<rparr>) = getSessionStart ls"
    by (simp_all add: getOverallTotal_def getSessionStart_def)
  have entry: "ls\<lparr>game_time_daily := Some (NotJson [])\<rparr> = ls"
    using assms by simp
  have entry': "ls\<lparr>game_time_session_start := None, game_time_daily := Some (NotJson [])\<rparr> =
      ls\<lparr>game_time_session_start := None\<rparr>"
    using assms by simp
  show ?thesis
    by (simp add: loadOnMount_Home [OF l] loadOnMount_Home [OF l'] keep Let_def Home_sel entry entry'
        split: option.splits number.splits)
qed

lemma empty_overall_as_absent:
  assumes "game_time_overall ls = Some []"
  shows "getOverallTotal ls = Num 0 \<and>
         loadOnMount now (Home ls) =
           (case loadOnMount now (Home (ls\<lparr>game_time_overall := None\<rparr>)) of
              Inl e \<Rightarrow> Inl e
            | Inr a' \<Rightarrow> Inr (a'\<lparr>storage := (storage a')\<lparr>game_time_overall := Some []\<rparr>\<rparr>))"
proof -
  have o: "getOverallTotal ls = Num 0" using assms by (simp add: getOverallTotal_def)
  have keep: "getDailyTotals (ls\<lparr>game_time_overall := None\<rparr>) = getDailyTotals ls"
    "getOverallTotal (ls\<lparr>game_time_overall := None\<rparr>) = Num 0"
    "getSessionStart (ls\<lparr>game_time_overall := None\<rparr>) = getSessionStart ls"
    by (simp_all add: getDailyTotals_def getOverallTotal_def getSessionStart_def)
  have entry: "ls\<lparr>game_time_overall := Some []\<rparr> = ls"
    using assms by simp
  have entry': "ls\<lparr>game_time_session_start := None, game_time_overall := Some []\<rparr> =
      ls\<lparr>game_time_session_start := None\<rparr>"
    using assms by simp
  have "loadOnMount now (Home ls) =
           (case loadOnMount now (Home (ls\<lparr>game_time_overall := None\<rparr>)) of
              Inl e \<Rightarrow> Inl e
            | Inr a' \<Rightarrow> Inr (a'\<lparr>storage := (storage a')\<lparr>game_time_overall := Some []\<rparr>\<rparr>))"
  proof (cases "getDailyTotals ls")
    case (Inl e)
    then show ?thesis by (simp add: loadOnMount_def keep Home_sel)
  next
    case (Inr loaded)
    with keep have l: "getDailyTotals (ls\<lparr>game_time_overall := None\<rparr>) = Inr loaded" by simp
    show ?thesis
      by (simp add: loadOnMount_Home [OF Inr] loadOnMount_Home [OF l] keep o Let_def Home_sel
          entry entry' split: option.splits number.splits)
  qed
  with o show ?thesis by simp
qed


text \<open>
  C9, amended: what the load does with each malformed entry. A non-empty daily-totals
  text that is not JSON makes the whole load fail with a \<^verbatim>\<open>SyntaxError\<close>. A non-empty
  overall-total text without a leading integer reads as \<^verbatim>\<open>NaN\<close>; the load does not fail,
  and the overall total of the component is \<^verbatim>\<open>NaN\<close> when the daily totals are not empty
  and the default 0 when they are. A session-start text without a leading integer is
  treated as absent: the load gives what it gives without the entry, and the entry
  stays in the store. So is an empty text in the daily or in the overall entry.
\<close>

theorem C9_malformed_values:
  "(game_time_daily ls = Some (NotJson s) \<and> s \<noteq> [] \<longrightarrow>
      loadOnMount now (Home ls) = Inl SyntaxError) \<and>
   (game_time_overall ls = Some text \<and> text \<noteq> [] \<and> parseInt10 text = NaN \<longrightarrow>
      getOverallTotal ls = NaN \<and>
      (\<forall>loaded. getDailyTotals ls = Inr loaded \<longrightarrow>
         (\<exists>a'. loadOnMount now (Home ls) = Inr a' \<and> dailyTotals a' = loaded \<and>
               overallTotal a' = (if loaded = [] then Num 0 else NaN)))) \<and>
   (game_time_session_start ls = Some text \<and> parseInt10 text = NaN \<longrightarrow>
      loadOnMount now (Home ls) =
        (case loadOnMount now (Home (ls\<lparr>game_time_session_start := None\<rparr>)) of
           Inl e \<Rightarrow> Inl e
         | Inr a' \<Rightarrow> Inr (a'\<lparr>storage := ls\<rparr>))) \<and>
   (game_time_daily ls = Some (NotJson []) \<longrightarrow>
      loadOnMount now (Home ls) =
        (case loadOnMount now (Home (ls\<lparr>game_time_daily := None\<rparr>)) of
           Inl e \<Rightarrow> Inl e
         | Inr a' \<Rightarrow>
             Inr (a'\<lparr>storage := (storage a')\<lparr>game_time_daily := Some (NotJson [])\<rparr>\<rparr>))) \<and>
   (game_time_overall ls = Some [] \<longrightarrow>
      getOverallTotal ls = Num 0 \<and>
      loadOnMount now (Home ls) =
        (case loadOnMount now (Home (ls\<lparr>game_time_overall := None\<rparr>)) of
           Inl e \<Rightarrow> Inl e
         | Inr a' \<Rightarrow> Inr (a'\<lparr>storage := (storage a')\<lparr>game_time_overall := Some []\<rparr>\<rparr>)))"
proof (intro conjI impI)
  assume "game_time_daily ls = Some (NotJson [])"
  then show "loadOnMount now (Home ls) =
        (case loadOnMount now (Home (ls\<lparr>game_time_daily := None\<rparr>)) of
           Inl e \<Rightarrow> Inl e
         | Inr a' \<Rightarrow>
             Inr (a'\<lparr>storage := (storage a')\<lparr>game_time_daily := Some (NotJson [])\<rparr>\<rparr>))"
    by (rule empty_daily_as_absent)
next
  assume e: "game_time_overall ls = Some []"
  from empty_overall_as_absent [OF e] show "getOverallTotal ls = Num 0" by simp
next
  assume e: "game_time_overall ls = Some []"
  from empty_overall_as_absent [OF e, of now] show "loadOnMount now (Home ls) =
        (case loadOnMount now (Home (ls\<lparr>game_time_overall := None\<rparr>)) of
           Inl e \<Rightarrow> Inl e
         | Inr a' \<Rightarrow> Inr (a'\<lparr>storage := (storage a')\<lparr>game_time_overall := Some []\<rparr>\<rparr>))"
    by simp
next
  assume "game_time_daily ls = Some (NotJson s) \<and> s \<noteq> []"
  then show "loadOnMount now (Home ls) = Inl SyntaxError"
    by (simp add: loadOnMount_def getDailyTotals_def truthy_text_def JSON_parse_def Home_sel)
next
  assume a: "game_time_overall ls = Some text \<and> text \<noteq> [] \<and> parseInt10 text = NaN"
  then show "getOverallTotal ls = NaN" by (simp add: getOverallTotal_def)
next
  assume a: "game_time_overall ls = Some text \<and> text \<noteq> [] \<and> parseInt10 text = NaN"
  then have o: "getOverallTotal ls = NaN" by (simp add: getOverallTotal_def)
  show "\<forall>loaded. getDailyTotals ls = Inr loaded \<longrightarrow>
         (\<exists>a'. loadOnMount now (Home ls) = Inr a' \<and> dailyTotals a' = loaded \<and>
               overallTotal a' = (if loaded = [] then Num 0 else NaN))"
  proof (intro allI impI)
    fix loaded assume l: "getDailyTotals ls = Inr loaded"
    show "\<exists>a'. loadOnMount now (Home ls) = Inr a' \<and> dailyTotals a' = loaded \<and>
               overallTotal a' = (if loaded = [] then Num 0 else NaN)"
      by (simp add: loadOnMount_Home [OF l] o Let_def Home_sel
          split: option.splits number.splits)
  qed
next
  assume a: "game_time_session_start ls = Some text \<and> parseInt10 text = NaN"
  have keep: "getDailyTotals (ls\<lparr>game_time_session_start := None\<rparr>) = getDailyTotals ls"
    "getOverallTotal (ls\<lparr>game_time_session_start := None\<rparr>) = getOverallTotal ls"
    "getSessionStart (ls\<lparr>game_time_session_start := None\<rparr>) = None"
    by (simp_all add: getDailyTotals_def getOverallTotal_def getSessionStart_def)
  from a have g: "getSessionStart ls = None \<or> getSessionStart ls = Some NaN"
    by (simp add: getSessionStart_def)
  show "loadOnMount now (Home ls) =
        (case loadOnMount now (Home (ls\<lparr>game_time_session_start := None\<rparr>)) of
           Inl e \<Rightarrow> Inl e
         | Inr a' \<Rightarrow> Inr (a'\<lparr>storage := ls\<rparr>))"
  proof (cases "getDailyTotals ls")
    case (Inl e)
    then show ?thesis by (simp add: loadOnMount_def keep Home_sel)
  next
    case (Inr loaded)
    with keep have l: "getDailyTotals (ls\<lparr>game_time_session_start := None\<rparr>) = Inr loaded"
      by simp
    from g show ?thesis
      by (auto simp: loadOnMount_Home [OF Inr] loadOnMount_Home [OF l] keep Let_def Home_sel)
  qed
qed


theorem C9_malformed_values_witness:
  "loadOnMount 1700000000000
     (Home (empty_store\<lparr>game_time_daily := Some (NotJson ''{oops'')\<rparr>)) = Inl SyntaxError \<and>
   parseInt10 ''abc'' = NaN \<and>
   getOverallTotal (empty_store\<lparr>game_time_daily := Some (Json [(''2024-01-01'', 5)]),
      game_time_overall := Some ''abc''\<rparr>) = NaN \<and>
   (case loadOnMount 1700000000000
           (Home (empty_store\<lparr>game_time_daily := Some (Json [(''2024-01-01'', 5)]),
              game_time_overall := Some ''abc''\<rparr>)) of
      Inl e \<Rightarrow> False
    | Inr a' \<Rightarrow> dailyTotals a' = [(''2024-01-01'', 5)] \<and> overallTotal a' = NaN) \<and>
   loadOnMount 1700000000000 (Home (empty_store\<lparr>game_time_session_start := Some ''abc''\<rparr>)) =
     Inr (Home (empty_store\<lparr>game_time_session_start := Some ''abc''\<rparr>)) \<and>
   loadOnMount 1700000000000 (Home (empty_store\<lparr>game_time_daily := Some (NotJson [])\<rparr>)) =
     Inr (Home (empty_store\<lparr>game_time_daily := Some (NotJson [])\<rparr>)) \<and>
   getOverallTotal (empty_store\<lparr>game_time_overall := Some []\<rparr>) = Num 0"
proof -
  let ?ls4 = "empty_store\<lparr>game_time_daily := Some (NotJson [])\<rparr>"
  let ?ls5 = "empty_store\<lparr>game_time_overall := Some []\<rparr>"
  let ?ls1 = "empty_store\<lparr>game_time_daily := Some (NotJson ''{oops'')\<rparr>"
  let ?ls2 = "empty_store\<lparr>game_time_daily := Some (Json [(''2024-01-01'', 5)]),
      game_time_overall := Some ''abc''\<rparr>"
  let ?ls3 = "empty_store\<lparr>game_time_session_start := Some ''abc''\<rparr>"
  have p: "parseInt10 ''abc'' = NaN" by (simp add: parseInt10_eval)
  have first: "loadOnMount 1700000000000 (Home ?ls1) = Inl SyntaxError"
    using C9_malformed_values [of ?ls1 "''{oops''" 1700000000000 "''abc''"] by simp
  have l2: "getDailyTotals ?ls2 = Inr [(''2024-01-01'', 5)]"
    by (simp add: getDailyTotals_def truthy_text_def JSON_parse_def)
  have second: "getOverallTotal ?ls2 = NaN"
    "\<exists>a'. loadOnMount 1700000000000 (Home ?ls2) = Inr a' \<and>
       dailyTotals a' = [(''2024-01-01'', 5)] \<and> overallTotal a' = NaN"
    using C9_malformed_values [of ?ls2 "''{oops''" 1700000000000 "''abc''"] p l2 by simp_all
  have l: "getDailyTotals empty_store = Inr []" by (simp add: getDailyTotals_def empty_store_def)
  have absent: "loadOnMount 1700000000000 (Home empty_store) = Inr (Home empty_store)"
    using loadOnMount_Home [OF l, of 1700000000000]
    by (simp add: getOverallTotal_def getSessionStart_def empty_store_def)
  have cleared: "?ls3\<lparr>game_time_session_start := None\<rparr> = empty_store"
    by (simp add: empty_store_def)
  have "loadOnMount 1700000000000 (Home ?ls3) = Inr ((Home empty_store)\<lparr>storage := ?ls3\<rparr>)"
    using C9_malformed_values [of ?ls3 "''{oops''" 1700000000000 "''abc''"] p
    by (simp add: cleared absent)
  then have third: "loadOnMount 1700000000000 (Home ?ls3) = Inr (Home ?ls3)"
    by (simp add: Home_def)
  have cleared4: "?ls4\<lparr>game_time_daily := None\<rparr> = empty_store"
    by (simp add: empty_store_def)
  have "loadOnMount 1700000000000 (Home ?ls4) =
      Inr ((Home empty_store)\<lparr>storage := (storage (Home empty_store))
             \<lparr>game_time_daily := Some (NotJson [])\<rparr>\<rparr>)"
    using C9_malformed_values [of ?ls4 "''{oops''" 1700000000000 "''abc''"]
    by (simp add: cleared4 absent)
  then have fourth: "loadOnMount 1700000000000 (Home ?ls4) = Inr (Home ?ls4)"
    by (simp add: Home_def)
  have fifth: "getOverallTotal ?ls5 = Num 0"
    using C9_malformed_values [of ?ls5 "''{oops''" 1700000000000 "''abc''"] by simp
  from second(2) obtain a' where "loadOnMount 1700000000000 (Home ?ls2) = Inr a'"
    "dailyTotals a' = [(''2024-01-01'', 5)]" "overallTotal a' = NaN" by blast
  with first p second(1) third fourth fifth show ?thesis by simp
qed

subsection \<open>The date of a commit and the dates of the week\<close>

text \<open>
  Whatever the anchor, so whatever the date on which the session started, a commit
  writes one key, the date string of the instant of the stop.
\<close>

lemma commit_writes_one_key:
  assumes "isTracking a" and "sessionStartRef a = Some s" and "s \<noteq> 0"
    and "0 < calculateElapsedTenths now s" and "calculateElapsedTenths now s \<le> MAX_SESSION_TENTHS"
  shows "fst ` set (dailyTotals (handleTimer now a)) =
           insert (getDateString now) (fst ` set (dailyTotals a)) \<and>
         map_of (dailyTotals (handleTimer now a)) (getDateString now) =
           Some (value_or_zero (dailyTotals a) (getDateString now) + calculateElapsedTenths now s)"
  using assms by (simp add: handleTimer_def Let_def dom_update update_conv')

text \<open>The instant \<^verbatim>\<open>getStartOfWeek\<close> returns, and the instants whose dates make the week.\<close>

lemma getStartOfWeek_shift:
  "getStartOfWeek tza now =
     now + (- getDay tza now + (if getDay tza now = 0 then - 6 else 1)) * msPerDay"
  by (simp add: getStartOfWeek_def setDate_def Let_def)

lemma getDatesInWeek_days:
  "getDatesInWeek tza now =
     map (\<lambda>i. toISOString_date (getStartOfWeek tza now + i * msPerDay)) [0, 1, 2, 3, 4, 5, 6]"
  by (simp add: getDatesInWeek_def getDateString_def setDate_def Let_def)

text \<open>
  The week average is the sum of the entries of the dates of \<^verbatim>\<open>getDatesInWeek\<close>, an absent
  date counting 0, divided by 7, whatever the number of dates with an entry.
\<close>

lemma calculateWeekAverage_spec:
  "calculateWeekAverage tza now totals = Some (week_average_spec (getDatesInWeek tza now) totals)"
  by (simp add: calculateWeekAverage_def week_average_spec_def js_divide_def Let_def
      foldl_plus_sum_list)

text \<open>
  When the local date of \<open>now\<close> is its UTC date (always so in the zone of UTC), the dates
  are Monday to Sunday of the week that contains \<open>now\<close>.
\<close>

lemma getDatesInWeek_monday_week:
  assumes "Day (LocalTime tza now) = Day now"
  shows "getDatesInWeek tza now = monday_week (Day now)"
proof -
  let ?n = "Day now"
  let ?c = "- getDay tza now + (if getDay tza now = 0 then - 6 else 1)"
  have day: "getDay tza now = (?n + 4) mod 7"
    using assms by (simp add: getDay_def WeekDay_def)
  have c: "?c = - ((?n + 3) mod 7)"
    unfolding day by presburger
  have "toISOString_date (getStartOfWeek tza now + i * msPerDay) =
        toISOString_date ((?n - (?n + 3) mod 7 + i) * msPerDay)" for i
  proof (rule toISOString_date_Day)
    have "getStartOfWeek tza now + i * msPerDay = now + (?c + i) * msPerDay"
      by (simp add: getStartOfWeek_shift algebra_simps)
    then have "Day (getStartOfWeek tza now + i * msPerDay) = ?n + (?c + i)"
      by (simp only: Day_add_days)
    also have "\<dots> = ?n - (?n + 3) mod 7 + i" using c by simp
    finally show "Day (getStartOfWeek tza now + i * msPerDay) =
        Day ((?n - (?n + 3) mod 7 + i) * msPerDay)"
      by (simp only: Day_of_days)
  qed
  then show ?thesis
    by (simp add: getDatesInWeek_days monday_week_def Let_def)
qed

text \<open>
  The observer of the two theorems below is two hours east of UTC. The clock reads
  1704666600000: Sunday 7 January 2024, 22:30 in UTC, and Monday 8 January, 00:30 for
  the observer.
\<close>

lemma getDay_observer: "getDay 7200000 1704666600000 = 1"
  by (simp add: getDay_def WeekDay_def LocalTime_def Day_def msPerDay_def)

lemma getDatesInWeek_observer:
  "getDatesInWeek 7200000 1704666600000 =
     [''2024-01-07'', ''2024-01-08'', ''2024-01-09'', ''2024-01-10'', ''2024-01-11'',
      ''2024-01-12'', ''2024-01-13'']"
proof -
  have "getStartOfWeek 7200000 1704666600000 = 1704666600000"
    by (simp add: getStartOfWeek_shift getDay_observer)
  then have "getDatesInWeek 7200000 1704666600000 =
     [toISOString_date 1704666600000, toISOString_date 1704753000000,
      toISOString_date 1704839400000, toISOString_date 1704925800000,
      toISOString_date 1705012200000, toISOString_date 1705098600000,
      toISOString_date 1705185000000]"
    by (simp add: getDatesInWeek_days msPerDay_def)
  then show ?thesis by (simp add: date_eval)
qed

lemma monday_week_observer_local:
  "monday_week (Day (LocalTime 7200000 1704666600000)) =
     [''2024-01-08'', ''2024-01-09'', ''2024-01-10'', ''2024-01-11'', ''2024-01-12'',
      ''2024-01-13'', ''2024-01-14'']"
proof -
  have "monday_week (Day (LocalTime 7200000 1704666600000)) =
     [toISOString_date 1704672000000, toISOString_date 1704758400000,
      toISOString_date 1704844800000, toISOString_date 1704931200000,
      toISOString_date 1705017600000, toISOString_date 1705104000000,
      toISOString_date 1705190400000]"
    by (simp add: monday_week_def LocalTime_def Day_def msPerDay_def)
  then show ?thesis by (simp add: date_eval)
qed

lemma monday_week_observer_utc:
  "monday_week (Day 1704666600000) =
     [''2024-01-01'', ''2024-01-02'', ''2024-01-03'', ''2024-01-04'', ''2024-01-05'',
      ''2024-01-06'', ''2024-01-07'']"
proof -
  have "monday_week (Day 1704666600000) =
     [toISOString_date 1704067200000, toISOString_date 1704153600000,
      toISOString_date 1704240000000, toISOString_date 1704326400000,
      toISOString_date 1704412800000, toISOString_date 1704499200000,
      toISOString_date 1704585600000]"
    by (simp add: monday_week_def Day_def msPerDay_def)
  then show ?thesis by (simp add: date_eval)
qed

text \<open>
  C4, as stated, fails at this observer: a session that starts at 00:20 and stops at
  00:30 local time on Monday 8 January lies within that local day, and its 6000 tenths
  are recorded under the key of 7 January, the date in UTC. The key is the date part
  of \<^verbatim>\<open>toISOString()\<close>, which does not know the observer's zone.
\<close>

theorem C4_counterexample:
  "local_date_key 7200000 1704666000000 = ''2024-01-08'' \<and>
   local_date_key 7200000 1704666600000 = ''2024-01-08'' \<and>
   dailyTotals (handleTimer 1704666600000 (handleTimer 1704666000000 (Home empty_store))) =
     [(''2024-01-07'', 6000)]"
proof -
  let ?a = "handleTimer 1704666000000 (Home empty_store)"
  have tracking: "isTracking ?a" and anchor: "sessionStartRef ?a = Some 1704666000000"
    and before: "dailyTotals ?a = []"
    by (simp_all add: handleTimer_start_Home)
  have key: "getDateString 1704666600000 = ''2024-01-07''"
    by (simp add: getDateString_def date_eval)
  have local: "local_date_key 7200000 1704666000000 = ''2024-01-08''"
    "local_date_key 7200000 1704666600000 = ''2024-01-08''"
    by (simp_all add: local_date_key_def LocalTime_def date_eval)
  have "dailyTotals (handleTimer 1704666600000 ?a) = [(''2024-01-07'', 6000)]"
    using handleTimer_stop [OF tracking anchor, of 1704666600000]
    by (simp add: Let_def key handleTimer_start_Home value_or_zero_def)
  with local show ?thesis by simp
qed

text \<open>
  C4, amended: every committed duration is recorded under the calendar date in UTC of
  the instant at which the stop is evaluated, the date a zone without offset would
  show. For the years 0 to 9999 the key has the format \<^verbatim>\<open>YYYY-MM-DD\<close>. The commit is not
  split: the daily totals after the stop are those before it with the whole duration
  added to the entry of that one key, wherever the session started.
\<close>

theorem C4_commit_under_utc_date_key:
  assumes "isTracking a" and "sessionStartRef a = Some s" and "s \<noteq> 0"
    and "0 < calculateElapsedTenths now s" and "calculateElapsedTenths now s \<le> MAX_SESSION_TENTHS"
    and "0 \<le> YearFromTime now" and "YearFromTime now \<le> 9999"
  shows "getDateString now = local_date_key 0 now \<and>
         (\<exists>yyyy mm dd. getDateString now = yyyy @ ''-'' @ mm @ ''-'' @ dd \<and>
            length yyyy = 4 \<and> length mm = 2 \<and> length dd = 2 \<and>
            (\<forall>c \<in> set (yyyy @ mm @ dd). is_digit c)) \<and>
         map_of (dailyTotals (handleTimer now a)) =
           (map_of (dailyTotals a))
             (getDateString now \<mapsto>
                value_or_zero (dailyTotals a) (getDateString now) + calculateElapsedTenths now s)"
proof -
  have utc: "getDateString now = local_date_key 0 now"
    by (simp add: getDateString_def local_date_key_def LocalTime_def)
  have totals: "map_of (dailyTotals (handleTimer now a)) =
      (map_of (dailyTotals a))
        (getDateString now \<mapsto>
           value_or_zero (dailyTotals a) (getDateString now) + calculateElapsedTenths now s)"
    using assms(1-5) by (simp add: handleTimer_def Let_def update_conv')
  from utc getDateString_format [OF assms(6,7)] totals show ?thesis by blast
qed

theorem C4_commit_key_witness:
  "isTracking (handleTimer 1704671400000 (Home empty_store)) \<and>
   sessionStartRef (handleTimer 1704671400000 (Home empty_store)) = Some 1704671400000 \<and>
   calculateElapsedTenths 1704672600000 1704671400000 = 12000 \<and>
   YearFromTime 1704672600000 = 2024 \<and>
   getDateString 1704671400000 = ''2024-01-07'' \<and>
   getDateString 1704672600000 = ''2024-01-08'' \<and>
   map_of (dailyTotals (handleTimer 1704672600000 (handleTimer 1704671400000 (Home empty_store))))
     ''2024-01-08'' = Some 12000 \<and>
   map_of (dailyTotals (handleTimer 1704672600000 (handleTimer 1704671400000 (Home empty_store))))
     ''2024-01-07'' = None"
proof -
  let ?a = "handleTimer 1704671400000 (Home empty_store)"
  have tracking: "isTracking ?a" and anchor: "sessionStartRef ?a = Some 1704671400000"
    and before: "dailyTotals ?a = []"
    by (simp_all add: handleTimer_start_Home)
  have nz: "(1704671400000::int) \<noteq> 0" by simp
  have elapsed: "calculateElapsedTenths 1704672600000 1704671400000 = 12000"
    by (simp add: calculateElapsedTenths_def)
  have pos: "0 < calculateElapsedTenths 1704672600000 1704671400000"
    and le: "calculateElapsedTenths 1704672600000 1704671400000 \<le> MAX_SESSION_TENTHS"
    by (simp_all add: elapsed MAX_SESSION_TENTHS_value)
  have year: "YearFromTime 1704672600000 = 2024"
    by (simp add: YearFromTime_def Day_def msPerDay_def year_and_day.simps DaysInYear_def)
  have y0: "0 \<le> YearFromTime 1704672600000" and y9: "YearFromTime 1704672600000 \<le> 9999"
    by (simp_all add: year)
  have started: "getDateString 1704671400000 = ''2024-01-07''"
    and stopped: "getDateString 1704672600000 = ''2024-01-08''"
    by (simp_all add: getDateString_def date_eval)
  from C4_commit_under_utc_date_key [OF tracking anchor nz pos le y0 y9]
  have "map_of (dailyTotals (handleTimer 1704672600000 ?a)) =
      (map_of (dailyTotals ?a))(''2024-01-08'' \<mapsto> value_or_zero (dailyTotals ?a) ''2024-01-08'' + 12000)"
    by (simp add: stopped elapsed)
  then have "map_of (dailyTotals (handleTimer 1704672600000 ?a)) ''2024-01-08'' = Some 12000"
    "map_of (dailyTotals (handleTimer 1704672600000 ?a)) ''2024-01-07'' = None"
    by (simp_all add: before value_or_zero_def)
  with tracking anchor elapsed year started stopped show ?thesis by simp
qed

text \<open>
  C7 at this observer, with 70 tenths recorded under 7 January and 7 under 8 January.
  It is Monday for the observer, and \<^verbatim>\<open>getStartOfWeek\<close> keeps the instant; the dates of
  the week are taken in UTC and run from Sunday 7 to Saturday 13 January. The average
  is 11. The week from Monday that contains now is 8 to 14 January in the observer's
  calendar (average 1) and 1 to 7 January in UTC (average 10).
\<close>

theorem C7_week_not_from_monday:
  "getDay 7200000 1704666600000 = 1 \<and>
   getDatesInWeek 7200000 1704666600000 =
     [''2024-01-07'', ''2024-01-08'', ''2024-01-09'', ''2024-01-10'', ''2024-01-11'',
      ''2024-01-12'', ''2024-01-13''] \<and>
   calculateWeekAverage 7200000 1704666600000 [(''2024-01-07'', 70), (''2024-01-08'', 7)] =
     Some 11 \<and>
   week_average_spec (monday_week (Day (LocalTime 7200000 1704666600000)))
     [(''2024-01-07'', 70), (''2024-01-08'', 7)] = 1 \<and>
   week_average_spec (monday_week (Day 1704666600000))
     [(''2024-01-07'', 70), (''2024-01-08'', 7)] = 10"
  by (simp add: getDay_observer calculateWeekAverage_spec getDatesInWeek_observer
      monday_week_observer_local monday_week_observer_utc week_average_spec_def
      value_or_zero_def)

end
